theory Spec2Isabelle
  imports Main "HOL-Library.AList"
begin

section \<open>JavaScript values\<close>

text \<open>
  The values that travel through the backend: primitives, timestamps (\<open>Date t\<close>, the
  instant \<open>t\<close> in milliseconds), arrays and plain objects. An object is the list of its
  own enumerable properties in insertion order; numbers are restricted to the integers
  (no operation of the modelled code computes with a payload number). Two more values
  can be read out of a plain object: \<open>Builtin name\<close>, the built-in function that
  \<open>Object.prototype\<close> holds under that name, and \<open>ObjectPrototype\<close>, the object
  \<open>Object.prototype\<close> itself.
\<close>

datatype jsval =
    Undefined
  | Null
  | Bool bool
  | Num int
  | Str string
  | Date int
  | Arr "jsval list"
  | Obj "(string \<times> jsval) list"
  | Builtin string
  | ObjectPrototype

type_synonym jsobj = "(string \<times> jsval) list"

text \<open>\<open>obj.k\<close>: the property, or \<open>undefined\<close> when the object has none of that name.\<close>

definition prop_of :: "jsobj \<Rightarrow> string \<Rightarrow> jsval" where
  "prop_of obj k = (case map_of obj k of None \<Rightarrow> Undefined | Some v \<Rightarrow> v)"

text \<open>JavaScript truthiness, as \<open>||\<close> and \<open>if\<close> test it.\<close>

fun truthy :: "jsval \<Rightarrow> bool" where
  "truthy Undefined = False"
| "truthy Null = False"
| "truthy (Bool b) = b"
| "truthy (Num n) = (n \<noteq> 0)"
| "truthy (Str s) = (s \<noteq> [])"
| "truthy (Date t) = True"
| "truthy (Arr xs) = True"
| "truthy (Obj kvs) = True"
| "truthy (Builtin f) = True"
| "truthy ObjectPrototype = True"

text \<open>\<open>typeof v === 'object' && v !== null\<close>\<close>

fun is_object :: "jsval \<Rightarrow> bool" where
  "is_object (Obj kvs) = True"
| "is_object (Arr xs) = True"
| "is_object (Date t) = True"
| "is_object ObjectPrototype = True"
| "is_object v = False"

text \<open>Decimal numerals, for the index keys of an array.\<close>

fun show_nat :: "nat \<Rightarrow> string" where
  "show_nat n =
     (if n < 10 then [''0123456789'' ! n]
      else show_nat (n div 10) @ [''0123456789'' ! (n mod 10)])"

text \<open>
  \<open>Object.entries(v)\<close> for an object value: the own enumerable properties; an array's are
  its elements under their indices, a \<open>Date\<close> and \<open>Object.prototype\<close> have none.
\<close>

fun entries :: "jsval \<Rightarrow> (string \<times> jsval) list" where
  "entries (Obj kvs) = kvs"
| "entries (Arr xs) = zip (map show_nat [0..<length xs]) xs"
| "entries v = []"

text \<open>
  \<open>{...v}\<close>: the own enumerable properties of \<open>v\<close>; a string spreads into its
  characters under their indices, and \<open>null\<close>, \<open>undefined\<close>, numbers, booleans,
  functions, dates and \<open>Object.prototype\<close> contribute nothing.
\<close>

fun spread :: "jsval \<Rightarrow> (string \<times> jsval) list" where
  "spread (Obj kvs) = kvs"
| "spread (Arr xs) = zip (map show_nat [0..<length xs]) xs"
| "spread (Str s) = zip (map show_nat [0..<length s]) (map (\<lambda>c. Str [c]) s)"
| "spread v = []"

section \<open>Errors, the process state and asynchronous operations\<close>

datatype error =
    Error string
  | TypeError string
  | SyntaxError string
  | DatastoreError string

text \<open>
  The state an operation runs in. \<open>testAssessments\<close> is the module-private object of
  \<open>Assessment.js\<close>, created as \<open>{}\<close>: its own properties, identifier to assessment
  object, in insertion order (only \<open>create\<close> and \<open>update\<close> write it, and only objects;
  the identifiers that \<open>create\<close> adds are UUIDs, which are not array indices).
  \<open>testPrototype\<close> is the prototype of that object: \<open>None\<close> while it is
  \<open>Object.prototype\<close>, as at the start, and \<open>Some p\<close> once an assignment to
  \<open>__proto__\<close> has put the plain object \<open>p\<close> in front of \<open>Object.prototype\<close>.
  \<open>store\<close> is the state of the datastore behind the database handle, and \<open>console\<close>
  what \<open>console.error\<close> has printed (message and the logged error).
\<close>

record 's world =
  testAssessments :: "(string \<times> jsobj) list"
  testPrototype :: "jsobj option"
  store :: 's
  console :: "(string \<times> error) list"

text \<open>
  The names under which \<open>Object.prototype\<close> holds a function. Its one other property is
  the accessor \<open>__proto__\<close>.
\<close>

definition Object_prototype_functions :: "string list" where
  "Object_prototype_functions =
     [''constructor'', ''__defineGetter__'', ''__defineSetter__'', ''hasOwnProperty'',
      ''__lookupGetter__'', ''__lookupSetter__'', ''isPrototypeOf'',
      ''propertyIsEnumerable'', ''toString'', ''valueOf'', ''toLocaleString'']"

text \<open>
  \<open>testAssessments[id]\<close>, a property read on a plain object: the own property; else the
  property of the installed prototype; else what \<open>Object.prototype\<close> has under that name
  (the \<open>__proto__\<close> getter gives the prototype of \<open>testAssessments\<close>); else
  \<open>undefined\<close>.
\<close>

definition testAssessments_get :: "'s world \<Rightarrow> string \<Rightarrow> jsval" where
  "testAssessments_get w id' =
     (case map_of (testAssessments w) id' of
        Some assessment \<Rightarrow> Obj assessment
      | None \<Rightarrow>
          (case (case testPrototype w of None \<Rightarrow> None | Some p \<Rightarrow> map_of p id') of
             Some v \<Rightarrow> v
           | None \<Rightarrow>
               if id' = ''__proto__''
               then (case testPrototype w of None \<Rightarrow> ObjectPrototype | Some p \<Rightarrow> Obj p)
               else if id' \<in> set Object_prototype_functions then Builtin id'
               else Undefined))"

text \<open>
  \<open>testAssessments[id] = assessment\<close> for an object \<open>assessment\<close>: an own property is
  overwritten; otherwise the name \<open>__proto__\<close>, unless the installed prototype has a
  property of that name, reaches the setter of \<open>Object.prototype\<close>, which makes
  \<open>assessment\<close> the prototype; any other name becomes a new own property.
\<close>

definition testAssessments_set :: "string \<Rightarrow> jsobj \<Rightarrow> 's world \<Rightarrow> 's world" where
  "testAssessments_set id' assessment w =
     (if map_of (testAssessments w) id' = None \<and> id' = ''__proto__'' \<and>
         (case testPrototype w of None \<Rightarrow> True | Some p \<Rightarrow> map_of p id' = None)
      then w\<lparr>testPrototype := Some assessment\<rparr>
      else w\<lparr>testAssessments := AList.update id' assessment (testAssessments w)\<rparr>)"

text \<open>
  An \<open>async\<close> function is a state transformer that resolves (\<open>Inr\<close>) or rejects
  (\<open>Inl\<close>); \<open>andThen\<close> is \<open>await\<close> followed by the rest of the body, and a rejection
  skips the rest.
\<close>

type_synonym ('a, 's) async = "'s world \<Rightarrow> (error + 'a) \<times> 's world"

definition resolve :: "'a \<Rightarrow> ('a, 's) async" where
  "resolve a w = (Inr a, w)"

definition reject :: "error \<Rightarrow> ('a, 's) async" where
  "reject e w = (Inl e, w)"

definition andThen :: "('a, 's) async \<Rightarrow> ('a \<Rightarrow> ('b, 's) async) \<Rightarrow> ('b, 's) async" where
  "andThen m f w = (case m w of (Inl e, w') \<Rightarrow> (Inl e, w') | (Inr a, w') \<Rightarrow> f a w')"

text \<open>\<open>try { body } catch (error) { console.error(msg, error); throw error; }\<close>\<close>

definition catch_log :: "string \<Rightarrow> ('a, 's) async \<Rightarrow> ('a, 's) async" where
  "catch_log msg body w =
     (case body w of
        (Inl e, w') \<Rightarrow> (Inl e, w'\<lparr>console := console w' @ [(msg, e)]\<rparr>)
      | (Inr a, w') \<Rightarrow> (Inr a, w'))"

text \<open>A call of the database handle: it acts on the datastore and on nothing else.\<close>

definition await_db :: "('s \<Rightarrow> (error + 'a) \<times> 's) \<Rightarrow> ('a, 's) async" where
  "await_db q w = (case q (store w) of (r, s') \<Rightarrow> (r, w\<lparr>store := s'\<rparr>))"

text \<open>
  \<open>Promise.all(ps)\<close> over callbacks that \<open>map\<close> has all started. Every callback runs;
  they reach the datastore in list order, and \<open>settle_all\<close> gives the outcome of each.
\<close>

fun settle_all :: "('a, 's) async list \<Rightarrow> 's world \<Rightarrow> (error + 'a) list \<times> 's world" where
  "settle_all [] w = ([], w)"
| "settle_all (p # ps) w =
     (case p w of (r, w') \<Rightarrow>
        (case settle_all ps w' of (rs, w'') \<Rightarrow> (r # rs, w'')))"

text \<open>
  Which promise settles first is not up to the code: \<open>settled i\<close> is the time at which
  the promise at index \<open>i\<close> settles. \<open>first_rejection settled i rs\<close> is the rejection
  among \<open>rs\<close> (whose head has index \<open>i\<close>) with the earliest time, the one at the lower
  index where two times agree.
\<close>

fun first_rejection :: "(nat \<Rightarrow> nat) \<Rightarrow> nat \<Rightarrow> (error + 'a) list \<Rightarrow> (nat \<times> error) option" where
  "first_rejection settled i [] = None"
| "first_rejection settled i (Inr a # rs) = first_rejection settled (Suc i) rs"
| "first_rejection settled i (Inl e # rs) =
     (case first_rejection settled (Suc i) rs of
        None \<Rightarrow> Some (i, e)
      | Some (j, e') \<Rightarrow> if settled j < settled i then Some (j, e') else Some (i, e))"

text \<open>The values of the promises that were fulfilled, in list order.\<close>

fun fulfilled :: "(error + 'a) list \<Rightarrow> 'a list" where
  "fulfilled [] = []"
| "fulfilled (Inr a # rs) = a # fulfilled rs"
| "fulfilled (Inl e # rs) = fulfilled rs"

text \<open>
  \<open>Promise.all\<close> rejects with the first rejection to settle, and otherwise resolves to
  the values in list order.
\<close>

definition Promise_all :: "(nat \<Rightarrow> nat) \<Rightarrow> ('a, 's) async list \<Rightarrow> ('a list, 's) async" where
  "Promise_all settled ps w =
     (case settle_all ps w of (rs, w') \<Rightarrow>
        (case first_rejection settled 0 rs of
           Some (i, e) \<Rightarrow> (Inl e, w')
         | None \<Rightarrow> (Inr (fulfilled rs), w')))"

section \<open>The database handle and the runtime environment\<close>

text \<open>
  A query under construction, as the query builder chains it:
  \<open>db(table).where(k, v).orderBy(c, d)\<close> is
  \<open>OrderBy (Where (Table table) k v) c d\<close>.
\<close>

datatype builder =
    Table string
  | Where builder string jsval
  | OrderBy builder string string

text \<open>
  What the modules import and do not define. \<open>isTestMode\<close> is the constant of
  \<open>Assessment.js\<close>, fixed when the module loads; \<open>JSON_stringify\<close> and \<open>JSON_parse\<close>
  are the built-ins (\<open>JSON.stringify\<close> yields a string or \<open>undefined\<close> and does not
  throw on these values, which have no cycles; \<open>JSON.parse\<close> may throw). The database
  handle of \<open>../db/index.js\<close> is used in two ways:
  \<open>db.query(sql, params)\<close> by the Assessment model, resolving to the rows of the
  statement (or to nothing), and as a query builder by DbService, whose terminal calls
  are awaiting the builder or \<open>select('*')\<close> (\<open>knex_rows\<close>), \<open>first()\<close>,
  \<open>insert(data)\<close>, \<open>update(data)\<close> and \<open>delete()\<close>.
\<close>

record 's env =
  isTestMode :: bool
  JSON_stringify :: "jsval \<Rightarrow> jsval"
  JSON_parse :: "jsval \<Rightarrow> error + jsval"
  db_query :: "string \<Rightarrow> jsval list \<Rightarrow> 's \<Rightarrow> (error + jsobj list option) \<times> 's"
  knex_rows :: "builder \<Rightarrow> 's \<Rightarrow> (error + jsobj list) \<times> 's"
  knex_first :: "builder \<Rightarrow> 's \<Rightarrow> (error + jsobj option) \<times> 's"
  knex_insert :: "builder \<Rightarrow> jsobj \<Rightarrow> 's \<Rightarrow> (error + jsval list) \<times> 's"
  knex_update :: "builder \<Rightarrow> jsobj \<Rightarrow> 's \<Rightarrow> (error + nat) \<times> 's"
  knex_delete :: "builder \<Rightarrow> 's \<Rightarrow> (error + nat) \<times> 's"

section \<open>The Assessment model (backend/models/Assessment.js)\<close>

text \<open>
  \<open>findById(id)\<close>. In test mode a read of \<open>testAssessments[id]\<close> that is not truthy
  falls through to the database query.
\<close>

definition Assessment_findById :: "'s env \<Rightarrow> string \<Rightarrow> (jsval, 's) async" where
  "Assessment_findById env id' =
     catch_log ''Error finding assessment by ID:''
       (\<lambda>w. if isTestMode env \<and> truthy (testAssessments_get w id')
            then resolve (testAssessments_get w id') w
            else andThen
                   (await_db (db_query env ''SELECT * FROM assessments WHERE id = ?'' [Str id']))
                   (\<lambda>assessment.
                      case assessment of
                        Some (r # rs) \<Rightarrow> resolve (Obj r)
                      | _ \<Rightarrow> resolve Null) w)"

text \<open>
  \<open>create(assessmentData, userId)\<close>; \<open>uuid\<close> and \<open>now\<close> are what \<open>uuidv4()\<close> and
  \<open>new Date()\<close> yield at this call.
\<close>

definition Assessment_create ::
  "'s env \<Rightarrow> jsval \<Rightarrow> string \<Rightarrow> string \<Rightarrow> int \<Rightarrow> (jsobj, 's) async" where
  "Assessment_create env assessmentData userId uuid now =
     catch_log ''Error creating assessment:''
       (\<lambda>w. if isTestMode env then
              (let assessment =
                     [(''id'', Str uuid), (''userId'', Str userId),
                      (''assessmentData'', assessmentData),
                      (''createdAt'', Date now), (''updatedAt'', Date now)]
               in resolve assessment (testAssessments_set uuid assessment w))
            else andThen
                   (await_db (db_query env
                      ''INSERT INTO assessments (id, user_id, assessment_data, created_at, updated_at) VALUES (?, ?, ?, ?, ?)''
                      [Str uuid, Str userId, JSON_stringify env assessmentData, Date now, Date now]))
                   (\<lambda>_. resolve
                      [(''id'', Str uuid), (''userId'', Str userId),
                       (''assessmentData'', assessmentData),
                       (''createdAt'', Date now), (''updatedAt'', Date now)]) w)"

text \<open>
  The callback of \<open>listByUser\<close> in production mode, over the rows in order:
  \<open>{...assessment, assessmentData: JSON.parse(assessment.assessment_data)}\<close>; the first
  \<open>JSON.parse\<close> that throws ends the \<open>map\<close>.
\<close>

fun parse_rows :: "(jsval \<Rightarrow> error + jsval) \<Rightarrow> jsobj list \<Rightarrow> error + jsobj list" where
  "parse_rows parse [] = Inr []"
| "parse_rows parse (assessment # rest) =
     (case parse (prop_of assessment ''assessment_data'') of
        Inl e \<Rightarrow> Inl e
      | Inr d \<Rightarrow>
          (case parse_rows parse rest of
             Inl e \<Rightarrow> Inl e
           | Inr rs \<Rightarrow> Inr (AList.update ''assessmentData'' d assessment # rs)))"

definition Assessment_listByUser :: "'s env \<Rightarrow> string \<Rightarrow> (jsobj list, 's) async" where
  "Assessment_listByUser env userId =
     catch_log ''Error listing assessments by user:''
       (\<lambda>w. if isTestMode env then
              resolve (filter (\<lambda>assessment. prop_of assessment ''userId'' = Str userId)
                         (map snd (testAssessments w))) w
            else andThen
                   (await_db (db_query env
                      ''SELECT * FROM assessments WHERE user_id = ? ORDER BY created_at DESC''
                      [Str userId]))
                   (\<lambda>assessments.
                      case assessments of
                        None \<Rightarrow> reject (TypeError ''Cannot read properties of undefined (reading map)'')
                      | Some rows \<Rightarrow>
                          (case parse_rows (JSON_parse env) rows of
                             Inl e \<Rightarrow> reject e
                           | Inr rs \<Rightarrow> resolve rs)) w)"

text \<open>
  \<open>update(id, assessmentData)\<close>. In test mode the function ends with
  \<open>return testAssessments[id]\<close>, which reads back the object just assigned.
\<close>

definition Assessment_update :: "'s env \<Rightarrow> string \<Rightarrow> jsval \<Rightarrow> int \<Rightarrow> (jsobj, 's) async" where
  "Assessment_update env id' assessmentData now =
     catch_log ''Error updating assessment:''
       (\<lambda>w. if isTestMode env then
              (if \<not> truthy (testAssessments_get w id')
               then reject (Error (''Assessment with ID '' @ id' @ '' not found'')) w
               else
                 (let updated =
                        AList.update ''updatedAt'' (Date now)
                          (AList.update ''assessmentData'' assessmentData
                             (spread (testAssessments_get w id')))
                  in resolve updated (testAssessments_set id' updated w)))
            else andThen
                   (await_db (db_query env
                      ''UPDATE assessments SET assessment_data = ?, updated_at = ? WHERE id = ?''
                      [JSON_stringify env assessmentData, Date now, Str id']))
                   (\<lambda>_. andThen (Assessment_findById env id')
                      (\<lambda>updatedAssessment.
                         resolve (AList.update ''assessmentData'' assessmentData
                                    (spread updatedAssessment)))) w)"

text \<open>\<open>delete(id)\<close>; \<open>delete testAssessments[id]\<close> removes an own property only.\<close>

definition Assessment_delete :: "'s env \<Rightarrow> string \<Rightarrow> (bool, 's) async" where
  "Assessment_delete env id' =
     catch_log ''Error deleting assessment:''
       (\<lambda>w. if isTestMode env then
              (if \<not> truthy (testAssessments_get w id')
               then reject (Error (''Assessment with ID '' @ id' @ '' not found'')) w
               else resolve True
                      (w\<lparr>testAssessments := AList.delete id' (testAssessments w)\<rparr>))
            else andThen
                   (await_db (db_query env ''DELETE FROM assessments WHERE id = ?'' [Str id']))
                   (\<lambda>_. resolve True) w)"

section \<open>DbService (the generic persistence helpers)\<close>

text \<open>\<open>findById(table, id)\<close>; \<open>record || null\<close> is \<open>None\<close> when \<open>first()\<close> found no row.\<close>

definition DbService_findById :: "'s env \<Rightarrow> string \<Rightarrow> jsval \<Rightarrow> (jsobj option, 's) async" where
  "DbService_findById env table id' =
     catch_log (''Error in findById for '' @ table @ '':'')
       (andThen (await_db (knex_first env (Where (Table table) ''id'' id')))
          (\<lambda>record. resolve record))"

text \<open>\<open>findBy(table, field, value)\<close>\<close>

definition DbService_findBy :: "'s env \<Rightarrow> string \<Rightarrow> string \<Rightarrow> jsval \<Rightarrow> (jsobj list, 's) async" where
  "DbService_findBy env table field' value' =
     catch_log (''Error in findBy for '' @ table @ '':'')
       (andThen (await_db (knex_rows env (Where (Table table) field' value')))
          (\<lambda>records. resolve records))"

text \<open>
  \<open>create(table, data)\<close>: \<open>const [id] = await db(table).insert(data)\<close>, then the record
  is fetched under \<open>data.id || id\<close>.
\<close>

definition DbService_create :: "'s env \<Rightarrow> string \<Rightarrow> jsobj \<Rightarrow> (jsobj option, 's) async" where
  "DbService_create env table data =
     catch_log (''Error in create for '' @ table @ '':'')
       (andThen (await_db (knex_insert env (Table table) data))
          (\<lambda>ids.
             let id' = (case ids of [] \<Rightarrow> Undefined | x # _ \<Rightarrow> x)
             in andThen
                  (DbService_findById env table
                     (if truthy (prop_of data ''id'') then prop_of data ''id'' else id'))
                  (\<lambda>insertedRecord. resolve insertedRecord)))"

text \<open>\<open>update(table, id, data)\<close>\<close>

definition DbService_update :: "'s env \<Rightarrow> string \<Rightarrow> jsval \<Rightarrow> jsobj \<Rightarrow> (jsobj option, 's) async" where
  "DbService_update env table id' data =
     catch_log (''Error in update for '' @ table @ '':'')
       (andThen (await_db (knex_update env (Where (Table table) ''id'' id') data))
          (\<lambda>_. andThen (DbService_findById env table id')
             (\<lambda>updatedRecord. resolve updatedRecord)))"

text \<open>
  \<open>delete(table, option)\<close>: the query the branches build, one \<open>where\<close> for each entry
  of a conditions object, else one on the \<open>id\<close> column.
\<close>

definition delete_query :: "string \<Rightarrow> jsval \<Rightarrow> builder" where
  "delete_query table option =
     (if is_object option
      then foldl (\<lambda>query (key, value'). Where query key value') (Table table) (entries option)
      else Where (Table table) ''id'' option)"

definition DbService_delete :: "'s env \<Rightarrow> string \<Rightarrow> jsval \<Rightarrow> (bool, 's) async" where
  "DbService_delete env table option =
     catch_log (''Error deleting from '' @ table @ '':'')
       (andThen (await_db (knex_delete env (delete_query table option)))
          (\<lambda>count. resolve (count > 0)))"

text \<open>\<open>getAll(table)\<close>\<close>

definition DbService_getAll :: "'s env \<Rightarrow> string \<Rightarrow> (jsobj list, 's) async" where
  "DbService_getAll env table =
     catch_log (''Error in getAll for '' @ table @ '':'')
       (andThen (await_db (knex_rows env (Table table)))
          (\<lambda>records. resolve records))"

text \<open>
  The callback of \<open>getConversationsWithPreviews\<close> for one conversation.
  \<open>latestMessage.content.substring(0, 50)\<close> is a \<open>TypeError\<close> when the content is not
  a string.
\<close>

definition conversation_preview :: "'s env \<Rightarrow> jsobj \<Rightarrow> (jsobj, 's) async" where
  "conversation_preview env conv =
     andThen
       (await_db (knex_first env
          (OrderBy (Where (Table ''chat_messages'') ''conversation_id'' (prop_of conv ''id''))
             ''created_at'' ''desc'')))
       (\<lambda>latestMessage.
          case latestMessage of
            None \<Rightarrow>
              resolve [(''id'', prop_of conv ''id''),
                       (''lastMessageDate'', prop_of conv ''updated_at''),
                       (''preview'', Str [])]
          | Some m \<Rightarrow>
              (case prop_of m ''content'' of
                 Str content \<Rightarrow>
                   resolve [(''id'', prop_of conv ''id''),
                            (''lastMessageDate'', prop_of conv ''updated_at''),
                            (''preview'', Str (take 50 content))]
               | _ \<Rightarrow> reject (TypeError ''latestMessage.content.substring is not a function'')))"

text \<open>
  \<open>getConversationsWithPreviews(userId)\<close>; \<open>settled\<close> gives the times at which the
  lookups of the fan-out settle at this call.
\<close>

definition DbService_getConversationsWithPreviews ::
  "'s env \<Rightarrow> (nat \<Rightarrow> nat) \<Rightarrow> string \<Rightarrow> (jsobj list, 's) async" where
  "DbService_getConversationsWithPreviews env settled userId =
     catch_log ''Error in getConversationsWithPreviews:''
       (andThen
          (await_db (knex_rows env
             (OrderBy (Where (Table ''conversations'') ''user_id'' (Str userId))
                ''updated_at'' ''desc'')))
          (\<lambda>conversations.
             andThen (Promise_all settled (map (conversation_preview env) conversations))
               (\<lambda>conversationsWithPreviews. resolve conversationsWithPreviews)))"

section \<open>The frontend API modules\<close>

text \<open>
  A module is the list of its export bindings. The request functions come from
  \<open>./requests/*\<close> and are parameters here; an export is one of them or an object whose
  fields are some of them. The re-exported types of \<open>./utils/types\<close> carry no values.
\<close>

datatype 'f export = Function 'f | ApiObject "(string \<times> 'f) list"

definition assessment_module :: "'f \<Rightarrow> 'f \<Rightarrow> 'f \<Rightarrow> 'f \<Rightarrow> 'f \<Rightarrow> (string \<times> 'f export) list" where
  "assessment_module getList getById postSend putUpdate deleteAssessment =
     (let assessmentApi =
            ApiObject [(''list'', getList), (''getById'', getById),
                       (''sendAssessment'', postSend), (''update'', putUpdate),
                       (''delete'', deleteAssessment)]
      in [(''getList'', Function getList), (''getById'', Function getById),
          (''sendAssessment'', Function postSend), (''update'', Function putUpdate),
          (''deleteAssessment'', Function deleteAssessment),
          (''assessmentApi'', assessmentApi),
          (''default'', assessmentApi)])"

definition chat_module :: "'f \<Rightarrow> 'f \<Rightarrow> 'f \<Rightarrow> 'f \<Rightarrow> (string \<times> 'f export) list" where
  "chat_module sendMessage getHistory getConversation deleteConversation =
     (let chatApi =
            ApiObject [(''sendMessage'', sendMessage), (''getHistory'', getHistory),
                       (''getConversation'', getConversation),
                       (''deleteConversation'', deleteConversation)]
      in [(''sendMessage'', Function sendMessage), (''getHistory'', Function getHistory),
          (''getConversation'', Function getConversation),
          (''deleteConversation'', Function deleteConversation),
          (''chatApi'', chatApi),
          (''default'', chatApi)])"

text \<open>\<open>m.name\<close> for an export that is an object, then its field: \<open>api.field\<close>.\<close>

definition api_field :: "(string \<times> 'f export) list \<Rightarrow> string \<Rightarrow> string \<Rightarrow> 'f option" where
  "api_field m name field' =
     (case map_of m name of
        Some (ApiObject fields') \<Rightarrow> map_of fields' field'
      | _ \<Rightarrow> None)"

definition exported_function :: "(string \<times> 'f export) list \<Rightarrow> string \<Rightarrow> 'f option" where
  "exported_function m name =
     (case map_of m name of Some (Function f) \<Rightarrow> Some f | _ \<Rightarrow> None)"

section \<open>A relational datastore behind the handle\<close>

text \<open>
  Modelled from the spec: the database handle exported by \<open>../db/index.js\<close>, which is
  not among the sources. The spec describes it as a query-builder-style handle
  supporting table selection, predicate filtering, ordering, insert, update and delete,
  and as a raw parameterized-SQL handle for the Assessment model. The datastore is a
  family of tables, each the list of its rows; a chain of \<open>where\<close> calls selects the rows
  that satisfy every one of them.
\<close>

type_synonym tables = "string \<Rightarrow> jsobj list"

text \<open>Modelled from the spec: table selection, the table a query is about.\<close>

fun table_of :: "builder \<Rightarrow> string" where
  "table_of (Table t) = t"
| "table_of (Where q k v) = table_of q"
| "table_of (OrderBy q c d) = table_of q"

text \<open>
  Modelled from the spec: predicate filtering. A row satisfies \<open>where(k, v)\<close> when its
  column \<open>k\<close> holds \<open>v\<close>, and a chain when it satisfies every \<open>where\<close> of it.
\<close>

fun matching :: "builder \<Rightarrow> jsobj \<Rightarrow> bool" where
  "matching (Table t) r = True"
| "matching (Where q k v) r = (matching q r \<and> map_of r k = Some v)"
| "matching (OrderBy q c d) r = matching q r"

text \<open>
  Modelled from the spec: ordering, the position of a column value in the order. Rows are
  ordered by the instant (or number) in the column.
\<close>

fun sort_rank :: "jsval \<Rightarrow> int" where
  "sort_rank (Date t) = t"
| "sort_rank (Num n) = n"
| "sort_rank v = 0"

text \<open>
  Modelled from the spec: ordering. The first \<open>orderBy\<close> of a chain is the primary key
  of the order, and rows that agree keep their table order.
\<close>

fun ordered :: "builder \<Rightarrow> jsobj list \<Rightarrow> jsobj list" where
  "ordered (Table t) rows = rows"
| "ordered (Where q k v) rows = ordered q rows"
| "ordered (OrderBy q c d) rows =
     ordered q
       (if d = ''desc'' then sort_key (\<lambda>r. - sort_rank (prop_of r c)) rows
        else sort_key (\<lambda>r. sort_rank (prop_of r c)) rows)"

text \<open>Modelled from the spec: the rows a query selects, in its order.\<close>

definition select_rows :: "builder \<Rightarrow> tables \<Rightarrow> jsobj list" where
  "select_rows q s = ordered q (filter (matching q) (s (table_of q)))"

text \<open>Modelled from the spec: awaiting a query, or \<open>select('*')\<close>, resolves to its rows.\<close>

definition tables_rows :: "builder \<Rightarrow> tables \<Rightarrow> (error + jsobj list) \<times> tables" where
  "tables_rows q s = (Inr (select_rows q s), s)"

text \<open>
  Modelled from the spec: \<open>first()\<close> resolves to the first of the rows, or to
  \<open>undefined\<close> (\<open>None\<close>) when there is none.
\<close>

definition tables_first :: "builder \<Rightarrow> tables \<Rightarrow> (error + jsobj option) \<times> tables" where
  "tables_first q s = (Inr (case select_rows q s of [] \<Rightarrow> None | r # _ \<Rightarrow> Some r), s)"

text \<open>
  Modelled from the spec: \<open>insert(data)\<close> appends the row and resolves to the one-element
  array of its row number.
\<close>

definition tables_insert :: "builder \<Rightarrow> jsobj \<Rightarrow> tables \<Rightarrow> (error + jsval list) \<times> tables" where
  "tables_insert q data s =
     (Inr [Num (int (length (s (table_of q))) + 1)],
      s(table_of q := s (table_of q) @ [data]))"

text \<open>Modelled from the spec: the columns named in \<open>data\<close> take the values of \<open>data\<close>.\<close>

definition assign :: "jsobj \<Rightarrow> jsobj \<Rightarrow> jsobj" where
  "assign data r = foldl (\<lambda>r' (k, v). AList.update k v r') r data"

text \<open>
  Modelled from the spec: \<open>update(data)\<close> assigns \<open>data\<close> to the selected rows and
  resolves to their number.
\<close>

definition tables_update :: "builder \<Rightarrow> jsobj \<Rightarrow> tables \<Rightarrow> (error + nat) \<times> tables" where
  "tables_update q data s =
     (Inr (length (filter (matching q) (s (table_of q)))),
      s(table_of q := map (\<lambda>r. if matching q r then assign data r else r) (s (table_of q))))"

text \<open>
  Modelled from the spec: \<open>delete()\<close> removes the selected rows and resolves to their
  number.
\<close>

definition tables_delete :: "builder \<Rightarrow> tables \<Rightarrow> (error + nat) \<times> tables" where
  "tables_delete q s =
     (Inr (length (filter (matching q) (s (table_of q)))),
      s(table_of q := filter (\<lambda>r. \<not> matching q r) (s (table_of q))))"

text \<open>
  Modelled from the spec: the raw parameterized-SQL handle \<open>db.query(sql, params)\<close> on
  the same tables. It knows the five statements the Assessment model issues; \<open>id\<close> is
  the primary key of \<open>assessments\<close>, so an \<open>INSERT\<close> of an identifier already there
  fails. Any other statement or parameter list fails.
\<close>

definition sql_query ::
  "string \<Rightarrow> jsval list \<Rightarrow> tables \<Rightarrow> (error + jsobj list option) \<times> tables" where
  "sql_query sql params s =
     (if sql = ''SELECT * FROM assessments WHERE id = ?'' then
        (case params of
           [i] \<Rightarrow> (Inr (Some (filter (\<lambda>r. map_of r ''id'' = Some i) (s ''assessments''))), s)
         | _ \<Rightarrow> (Inl (DatastoreError ''wrong number of parameters''), s))
      else if sql = ''INSERT INTO assessments (id, user_id, assessment_data, created_at, updated_at) VALUES (?, ?, ?, ?, ?)'' then
        (case params of
           [i, u, d, c, t] \<Rightarrow>
             (if filter (\<lambda>r. map_of r ''id'' = Some i) (s ''assessments'') \<noteq> []
              then (Inl (DatastoreError ''UNIQUE constraint failed: assessments.id''), s)
              else (Inr (Some []),
                    s(''assessments'' := s ''assessments'' @
                        [[(''id'', i), (''user_id'', u), (''assessment_data'', d),
                          (''created_at'', c), (''updated_at'', t)]])))
         | _ \<Rightarrow> (Inl (DatastoreError ''wrong number of parameters''), s))
      else if sql = ''SELECT * FROM assessments WHERE user_id = ? ORDER BY created_at DESC'' then
        (case params of
           [u] \<Rightarrow>
             (Inr (Some (sort_key (\<lambda>r. - sort_rank (prop_of r ''created_at''))
                           (filter (\<lambda>r. map_of r ''user_id'' = Some u) (s ''assessments'')))), s)
         | _ \<Rightarrow> (Inl (DatastoreError ''wrong number of parameters''), s))
      else if sql = ''UPDATE assessments SET assessment_data = ?, updated_at = ? WHERE id = ?'' then
        (case params of
           [d, t, i] \<Rightarrow>
             (Inr (Some []),
              s(''assessments'' :=
                  map (\<lambda>r. if map_of r ''id'' = Some i
                           then AList.update ''updated_at'' t (AList.update ''assessment_data'' d r)
                           else r)
                    (s ''assessments'')))
         | _ \<Rightarrow> (Inl (DatastoreError ''wrong number of parameters''), s))
      else if sql = ''DELETE FROM assessments WHERE id = ?'' then
        (case params of
           [i] \<Rightarrow>
             (Inr (Some []),
              s(''assessments'' := filter (\<lambda>r. map_of r ''id'' \<noteq> Some i) (s ''assessments'')))
         | _ \<Rightarrow> (Inl (DatastoreError ''wrong number of parameters''), s))
      else (Inl (DatastoreError ''unknown statement''), s))"

text \<open>
  Modelled from the spec: the environment whose database handle is this datastore, in
  test mode or not, with the given \<open>JSON.stringify\<close> and \<open>JSON.parse\<close>.
\<close>

definition tables_env :: "bool \<Rightarrow> (jsval \<Rightarrow> jsval) \<Rightarrow> (jsval \<Rightarrow> error + jsval) \<Rightarrow> tables env" where
  "tables_env testMode stringify parse =
     \<lparr>isTestMode = testMode, JSON_stringify = stringify, JSON_parse = parse,
      db_query = sql_query, knex_rows = tables_rows, knex_first = tables_first,
      knex_insert = tables_insert, knex_update = tables_update, knex_delete = tables_delete\<rparr>"

section \<open>Properties\<close>

lemmas async_defs = catch_log_def andThen_def resolve_def reject_def await_db_def

subsection \<open>The operations of the Assessment model, evaluated\<close>

text \<open>
  What each operation returns and leaves behind: in test mode for any database handle,
  in production mode over the relational datastore. \<open>update_test_reads_back\<close> is the
  \<open>return testAssessments[id]\<close> that ends the test branch of \<open>update\<close>: it reads the
  object that was just assigned.
\<close>

lemma tables_env_sel [simp]:
  "isTestMode (tables_env m sf pf) = m"
  "JSON_stringify (tables_env m sf pf) = sf"
  "JSON_parse (tables_env m sf pf) = pf"
  "db_query (tables_env m sf pf) = sql_query"
  "knex_rows (tables_env m sf pf) = tables_rows"
  "knex_first (tables_env m sf pf) = tables_first"
  "knex_insert (tables_env m sf pf) = tables_insert"
  "knex_update (tables_env m sf pf) = tables_update"
  "knex_delete (tables_env m sf pf) = tables_delete"
  by (simp_all add: tables_env_def)

lemma sql_select_by_id:
  "sql_query ''SELECT * FROM assessments WHERE id = ?'' [i] s =
     (Inr (Some (filter (\<lambda>r. map_of r ''id'' = Some i) (s ''assessments''))), s)"
  by (simp add: sql_query_def)

lemma sql_insert:
  "sql_query ''INSERT INTO assessments (id, user_id, assessment_data, created_at, updated_at) VALUES (?, ?, ?, ?, ?)''
     [i, u, d, c, t] s =
     (if filter (\<lambda>r. map_of r ''id'' = Some i) (s ''assessments'') \<noteq> []
      then (Inl (DatastoreError ''UNIQUE constraint failed: assessments.id''), s)
      else (Inr (Some []),
            s(''assessments'' := s ''assessments'' @
                [[(''id'', i), (''user_id'', u), (''assessment_data'', d),
                  (''created_at'', c), (''updated_at'', t)]])))"
  by (simp add: sql_query_def)

lemma sql_select_by_user:
  "sql_query ''SELECT * FROM assessments WHERE user_id = ? ORDER BY created_at DESC'' [u] s =
     (Inr (Some (sort_key (\<lambda>r. - sort_rank (prop_of r ''created_at''))
                   (filter (\<lambda>r. map_of r ''user_id'' = Some u) (s ''assessments'')))), s)"
  by (simp add: sql_query_def)

lemma sql_update:
  "sql_query ''UPDATE assessments SET assessment_data = ?, updated_at = ? WHERE id = ?'' [d, t, i] s =
     (Inr (Some []),
      s(''assessments'' :=
          map (\<lambda>r. if map_of r ''id'' = Some i
                   then AList.update ''updated_at'' t (AList.update ''assessment_data'' d r)
                   else r)
            (s ''assessments'')))"
  by (simp add: sql_query_def)

lemma sql_delete:
  "sql_query ''DELETE FROM assessments WHERE id = ?'' [i] s =
     (Inr (Some []),
      s(''assessments'' := filter (\<lambda>r. map_of r ''id'' \<noteq> Some i) (s ''assessments'')))"
  by (simp add: sql_query_def)

lemmas sql_simps = sql_select_by_id sql_insert sql_select_by_user sql_update sql_delete

lemma testAssessments_get_own:
  "map_of (testAssessments w) i = Some a \<Longrightarrow> testAssessments_get w i = Obj a"
  by (simp add: testAssessments_get_def)

lemma testAssessments_set_own:
  "map_of (testAssessments w) i = Some a \<Longrightarrow>
   testAssessments_set i v w = w\<lparr>testAssessments := AList.update i v (testAssessments w)\<rparr>"
  by (simp add: testAssessments_set_def)

lemma testAssessments_get_after_set:
  "map_of v ''__proto__'' = None \<Longrightarrow>
   testAssessments_get (testAssessments_set i v w) i = Obj v"
  by (simp add: testAssessments_get_def testAssessments_set_def update_conv'
        split: option.splits)

lemma testAssessments_get_inherited:
  "map_of (testAssessments w) i = None \<Longrightarrow> testPrototype w = None \<Longrightarrow>
   i \<in> set Object_prototype_functions \<Longrightarrow> testAssessments_get w i = Builtin i"
  by (auto simp: testAssessments_get_def Object_prototype_functions_def)

lemma findById_prod:
  "Assessment_findById (tables_env False sf pf) i w =
     (Inr (case filter (\<lambda>r. map_of r ''id'' = Some (Str i)) (store w ''assessments'') of
             [] \<Rightarrow> Null | r # _ \<Rightarrow> Obj r), w)"
  by (simp add: Assessment_findById_def async_defs sql_simps split: list.splits)

lemma findById_test_miss:
  "\<not> truthy (testAssessments_get w i) \<Longrightarrow>
   Assessment_findById (tables_env True sf pf) i w =
     (Inr (case filter (\<lambda>r. map_of r ''id'' = Some (Str i)) (store w ''assessments'') of
             [] \<Rightarrow> Null | r # _ \<Rightarrow> Obj r), w)"
  by (simp add: Assessment_findById_def async_defs sql_simps split: list.splits)

lemma findById_test_hit:
  "isTestMode env \<Longrightarrow> truthy (testAssessments_get w i) \<Longrightarrow>
   Assessment_findById env i w = (Inr (testAssessments_get w i), w)"
  by (simp add: Assessment_findById_def async_defs)

lemma delete_prod:
  "Assessment_delete (tables_env False sf pf) i w =
     (Inr True, w\<lparr>store := (store w)(''assessments'' :=
        filter (\<lambda>r. map_of r ''id'' \<noteq> Some (Str i)) (store w ''assessments''))\<rparr>)"
  by (simp add: Assessment_delete_def async_defs sql_simps)

lemma delete_test:
  "isTestMode env \<Longrightarrow>
   Assessment_delete env i w =
     (if \<not> truthy (testAssessments_get w i)
      then (Inl (Error (''Assessment with ID '' @ i @ '' not found'')),
            w\<lparr>console := console w @ [(''Error deleting assessment:'',
                Error (''Assessment with ID '' @ i @ '' not found''))]\<rparr>)
      else (Inr True, w\<lparr>testAssessments := AList.delete i (testAssessments w)\<rparr>))"
  by (simp add: Assessment_delete_def async_defs)

lemma update_test:
  "isTestMode env \<Longrightarrow>
   Assessment_update env i d now w =
     (if \<not> truthy (testAssessments_get w i)
      then (Inl (Error (''Assessment with ID '' @ i @ '' not found'')),
            w\<lparr>console := console w @ [(''Error updating assessment:'',
                Error (''Assessment with ID '' @ i @ '' not found''))]\<rparr>)
      else (Inr (AList.update ''updatedAt'' (Date now)
                   (AList.update ''assessmentData'' d (spread (testAssessments_get w i)))),
            testAssessments_set i
              (AList.update ''updatedAt'' (Date now)
                 (AList.update ''assessmentData'' d (spread (testAssessments_get w i)))) w))"
  by (simp add: Assessment_update_def async_defs Let_def)

lemma update_test_reads_back:
  "testAssessments_get
     (testAssessments_set i
        (AList.update ''updatedAt'' (Date now)
           (AList.update ''assessmentData'' d (spread (testAssessments_get w i)))) w) i
   = Obj (AList.update ''updatedAt'' (Date now)
            (AList.update ''assessmentData'' d (spread (testAssessments_get w i))))"
proof (cases "map_of (testAssessments w) i = None \<and> i = ''__proto__'' \<and>
              (case testPrototype w of None \<Rightarrow> True | Some p \<Rightarrow> map_of p i = None)")
  case True
  then have own: "map_of (testAssessments w) i = None" and i: "i = ''__proto__''"
    and p: "case testPrototype w of None \<Rightarrow> True | Some p \<Rightarrow> map_of p i = None"
    by blast+
  have "map_of (spread (testAssessments_get w i)) ''__proto__'' = None"
  proof (cases "testPrototype w")
    case None
    with own i show ?thesis
      by (simp add: testAssessments_get_def)
  next
    case (Some q)
    with p have "map_of q i = None"
      by simp
    with own i Some show ?thesis
      by (simp add: testAssessments_get_def)
  qed
  then have "map_of (AList.update ''updatedAt'' (Date now)
               (AList.update ''assessmentData'' d (spread (testAssessments_get w i))))
               ''__proto__'' = None"
    by (simp add: update_conv')
  then show ?thesis
    by (rule testAssessments_get_after_set)
next
  case False
  then have "testAssessments_set i
        (AList.update ''updatedAt'' (Date now)
           (AList.update ''assessmentData'' d (spread (testAssessments_get w i)))) w
     = w\<lparr>testAssessments := AList.update i
          (AList.update ''updatedAt'' (Date now)
             (AList.update ''assessmentData'' d (spread (testAssessments_get w i))))
          (testAssessments w)\<rparr>"
    unfolding testAssessments_set_def by (simp only: if_False)
  then show ?thesis
    by (simp add: testAssessments_get_def update_conv')
qed

lemma update_prod:
  "Assessment_update (tables_env False sf pf) i d now w =
     (let s' = (store w)(''assessments'' :=
                 map (\<lambda>r. if map_of r ''id'' = Some (Str i)
                          then AList.update ''updated_at'' (Date now)
                                 (AList.update ''assessment_data'' (sf d) r)
                          else r)
                   (store w ''assessments''))
      in (Inr (AList.update ''assessmentData'' d
                 (case filter (\<lambda>r. map_of r ''id'' = Some (Str i)) (s' ''assessments'') of
                    [] \<Rightarrow> [] | r # _ \<Rightarrow> r)),
          w\<lparr>store := s'\<rparr>))"
  by (simp add: Assessment_update_def async_defs sql_simps findById_prod Let_def split: list.splits)

lemma create_prod:
  "Assessment_create (tables_env False sf pf) d u i now w =
     (if filter (\<lambda>r. map_of r ''id'' = Some (Str i)) (store w ''assessments'') \<noteq> []
      then (Inl (DatastoreError ''UNIQUE constraint failed: assessments.id''),
            w\<lparr>console := console w @ [(''Error creating assessment:'',
                 DatastoreError ''UNIQUE constraint failed: assessments.id'')]\<rparr>)
      else (Inr [(''id'', Str i), (''userId'', Str u), (''assessmentData'', d),
                 (''createdAt'', Date now), (''updatedAt'', Date now)],
            w\<lparr>store := (store w)(''assessments'' := store w ''assessments'' @
                [[(''id'', Str i), (''user_id'', Str u), (''assessment_data'', sf d),
                  (''created_at'', Date now), (''updated_at'', Date now)]])\<rparr>))"
  by (simp add: Assessment_create_def async_defs sql_simps)

lemma create_test:
  "isTestMode env \<Longrightarrow>
   Assessment_create env d u i now w =
     (Inr [(''id'', Str i), (''userId'', Str u), (''assessmentData'', d),
           (''createdAt'', Date now), (''updatedAt'', Date now)],
      testAssessments_set i
        [(''id'', Str i), (''userId'', Str u), (''assessmentData'', d),
         (''createdAt'', Date now), (''updatedAt'', Date now)] w)"
  by (simp add: Assessment_create_def async_defs Let_def)

lemma listByUser_test:
  "isTestMode env \<Longrightarrow>
   Assessment_listByUser env u w =
     (Inr (filter (\<lambda>a. prop_of a ''userId'' = Str u) (map snd (testAssessments w))), w)"
  by (simp add: Assessment_listByUser_def async_defs)

lemma listByUser_prod:
  "Assessment_listByUser (tables_env False sf pf) u w =
     (case parse_rows pf (sort_key (\<lambda>r. - sort_rank (prop_of r ''created_at''))
                           (filter (\<lambda>r. map_of r ''user_id'' = Some (Str u)) (store w ''assessments''))) of
        Inl e \<Rightarrow> (Inl e, w\<lparr>console := console w @ [(''Error listing assessments by user:'', e)]\<rparr>)
      | Inr rs \<Rightarrow> (Inr rs, w))"
  by (simp add: Assessment_listByUser_def async_defs sql_simps split: sum.splits)

lemma parse_rows_keeps:
  "parse_rows p rows = Inr rs \<Longrightarrow> r \<in> set rs \<Longrightarrow>
   \<exists>a d. a \<in> set rows \<and> r = AList.update ''assessmentData'' d a"
proof (induction rows arbitrary: rs)
  case Nil
  then show ?case by simp
next
  case (Cons a rows)
  from Cons.prems(1) obtain d rs' where
    d: "p (prop_of a ''assessment_data'') = Inr d" and
    rs': "parse_rows p rows = Inr rs'" and
    rs: "rs = AList.update ''assessmentData'' d a # rs'"
    by (auto split: sum.splits)
  from Cons.prems(2) rs have "r = AList.update ''assessmentData'' d a \<or> r \<in> set rs'"
    by simp
  then show ?case
  proof
    assume "r = AList.update ''assessmentData'' d a"
    then show ?thesis by auto
  next
    assume "r \<in> set rs'"
    from Cons.IH [OF rs' this] show ?thesis by auto
  qed
qed

lemma parse_rows_total:
  "\<forall>r \<in> set rows. \<exists>d. p (prop_of r ''assessment_data'') = Inr d \<Longrightarrow>
   \<exists>rs. parse_rows p rows = Inr rs"
  by (induction rows) (auto split: sum.splits)

lemma map_if_absent:
  "filter P rows = [] \<Longrightarrow> map (\<lambda>r. if P r then f r else r) rows = rows"
  by (induction rows) (auto split: if_splits)

lemma filter_not_absent:
  "filter P rows = [] \<Longrightarrow> filter (\<lambda>r. \<not> P r) rows = rows"
  by (induction rows) (auto split: if_splits)

lemma world_store_same [simp]: "w\<lparr>store := (store w)(t := store w t)\<rparr> = w"
  by simp

subsection \<open>The operations of DbService over the relational datastore\<close>

lemma table_of_wheres:
  "table_of (foldl (\<lambda>query (key, value'). Where query key value') q kvs) = table_of q"
  by (induction kvs arbitrary: q) (auto split: prod.splits)

lemma matching_wheres:
  "matching (foldl (\<lambda>query (key, value'). Where query key value') q kvs) r =
     (matching q r \<and> list_all (\<lambda>(k, v). map_of r k = Some v) kvs)"
  by (induction kvs arbitrary: q) (auto split: prod.splits)

lemma table_of_delete_query [simp]: "table_of (delete_query table option) = table"
  by (simp add: delete_query_def table_of_wheres)

lemma matching_delete_query:
  "matching (delete_query table option) r =
     (if is_object option then list_all (\<lambda>(k, v). map_of r k = Some v) (entries option)
      else map_of r ''id'' = Some option)"
  by (simp add: delete_query_def matching_wheres)

lemma matching_where_table:
  "matching (Where (Table t) k v) = (\<lambda>r. map_of r k = Some v)"
  by (rule ext) simp

lemma DbService_findById_tables:
  "DbService_findById (tables_env m sf pf) table i w =
     (Inr (case filter (\<lambda>r. map_of r ''id'' = Some i) (store w table) of
             [] \<Rightarrow> None | r # _ \<Rightarrow> Some r), w)"
  by (simp add: DbService_findById_def async_defs tables_first_def select_rows_def
        matching_where_table)

lemma DbService_delete_tables:
  "DbService_delete (tables_env m sf pf) table option w =
     (Inr (filter (matching (delete_query table option)) (store w table) \<noteq> []),
      w\<lparr>store := (store w)(table :=
           filter (\<lambda>r. \<not> matching (delete_query table option) r) (store w table))\<rparr>)"
  by (simp add: DbService_delete_def async_defs tables_delete_def)

lemma filter_filter_not: "filter P (filter (\<lambda>r. \<not> P r) rows) = []"
  by (induction rows) auto

lemma filter_nonempty_iff_shorter:
  "(filter P rows \<noteq> []) = (length (filter (\<lambda>r. \<not> P r) rows) < length rows)"
proof -
  have "length (filter P rows) + length (filter (\<lambda>r. \<not> P r) rows) = length rows"
    by (rule sum_length_filter_compl)
  then show ?thesis
    by (cases "filter P rows") auto
qed

lemma matching_ordered_where:
  "matching (OrderBy (Where (Table t) k v) c d) = (\<lambda>r. map_of r k = Some v)"
  by (rule ext) simp

lemma sort_key_head_least:
  assumes "sort_key f xs = y # ys"
  shows "y \<in> set xs \<and> (\<forall>x \<in> set xs. f y \<le> f x)"
proof -
  have s: "set (sort_key f xs) = set xs"
    by simp
  have "sorted (map f (sort_key f xs))"
    by (rule sorted_sort_key)
  with assms have "\<forall>x \<in> set ys. f y \<le> f x"
    by simp
  moreover from s assms have "set xs = insert y (set ys)"
    by simp
  ultimately show ?thesis
    by simp
qed

lemma conversation_preview_tables:
  "conversation_preview (tables_env m sf pf) conv w =
     (case sort_key (\<lambda>r. - sort_rank (prop_of r ''created_at''))
             (filter (\<lambda>r. map_of r ''conversation_id'' = Some (prop_of conv ''id''))
                (store w ''chat_messages'')) of
        [] \<Rightarrow> (Inr [(''id'', prop_of conv ''id''),
                     (''lastMessageDate'', prop_of conv ''updated_at''),
                     (''preview'', Str [])], w)
      | latest # _ \<Rightarrow>
          (case prop_of latest ''content'' of
             Str content \<Rightarrow>
               (Inr [(''id'', prop_of conv ''id''),
                     (''lastMessageDate'', prop_of conv ''updated_at''),
                     (''preview'', Str (take 50 content))], w)
           | _ \<Rightarrow> (Inl (TypeError ''latestMessage.content.substring is not a function''), w)))"
  by (simp add: conversation_preview_def async_defs tables_first_def select_rows_def
        matching_ordered_where split: list.splits jsval.splits)

lemma delete_absent_key:
  "map_of al k = None \<Longrightarrow> AList.delete k al = al"
  by (rule delete_id) (simp add: map_of_eq_None_iff)

lemma world_testAssessments_same [simp]: "w\<lparr>testAssessments := testAssessments w\<rparr> = w"
  by simp

subsection \<open>The fan-out\<close>

lemma first_rejection_fulfilled:
  "first_rejection settled i (map Inr as) = None"
  by (induction as arbitrary: i) simp_all

lemma fulfilled_map_Inr: "fulfilled (map Inr as) = as"
  by (induction as) simp_all

lemma settle_all_list_all2:
  assumes "\<And>x. x \<in> set xs \<Longrightarrow> \<exists>a. f x w = (Inr a, w) \<and> P x a"
  shows "\<exists>as. settle_all (map f xs) w = (map Inr as, w) \<and> list_all2 P xs as"
  using assms
proof (induction xs)
  case Nil
  then show ?case by simp
next
  case (Cons x xs)
  from Cons.prems [of x] obtain a where a: "f x w = (Inr a, w)" "P x a"
    by auto
  from Cons.IH Cons.prems obtain as where
    as: "settle_all (map f xs) w = (map Inr as, w)" "list_all2 P xs as"
    by auto
  have "settle_all (map f (x # xs)) w = (map Inr (a # as), w)"
    by (simp add: a as)
  with a as show ?case
    by (metis list_all2_Cons)
qed

lemma Promise_all_list_all2:
  assumes "\<And>x. x \<in> set xs \<Longrightarrow> \<exists>a. f x w = (Inr a, w) \<and> P x a"
  shows "\<exists>as. Promise_all settled (map f xs) w = (Inr as, w) \<and> list_all2 P xs as"
proof -
  from settle_all_list_all2 [of xs f w P, OF assms] obtain as where
    as: "settle_all (map f xs) w = (map Inr as, w)" "list_all2 P xs as"
    by blast
  have "Promise_all settled (map f xs) w = (Inr as, w)"
    by (simp add: Promise_all_def as first_rejection_fulfilled fulfilled_map_Inr)
  with as show ?thesis
    by blast
qed

lemma conversation_preview_entry:
  assumes strings: "\<forall>msg \<in> set (store w ''chat_messages''). \<exists>s. prop_of msg ''content'' = Str s"
  shows "\<exists>entry. conversation_preview (tables_env m sf pf) conv w = (Inr entry, w) \<and>
           prop_of entry ''id'' = prop_of conv ''id'' \<and>
           prop_of entry ''lastMessageDate'' = prop_of conv ''updated_at'' \<and>
           (let msgs = filter (\<lambda>msg. map_of msg ''conversation_id'' = Some (prop_of conv ''id''))
                         (store w ''chat_messages'')
            in if msgs = [] then prop_of entry ''preview'' = Str []
               else \<exists>latest \<in> set msgs.
                      (\<forall>msg \<in> set msgs. sort_rank (prop_of msg ''created_at'')
                                          \<le> sort_rank (prop_of latest ''created_at'')) \<and>
                      (\<exists>content. prop_of latest ''content'' = Str content \<and>
                                 prop_of entry ''preview'' = Str (take 50 content)))"
proof -
  let ?msgs = "filter (\<lambda>msg. map_of msg ''conversation_id'' = Some (prop_of conv ''id''))
                 (store w ''chat_messages'')"
  let ?sorted = "sort_key (\<lambda>r. - sort_rank (prop_of r ''created_at'')) ?msgs"
  show ?thesis
  proof (cases ?sorted)
    case Nil
    then have "set ?msgs = {}"
      by (metis set_sort list.set(1))
    then have "?msgs = []"
      by simp
    with Nil show ?thesis
      by (simp add: conversation_preview_tables prop_of_def)
  next
    case (Cons latest rest)
    from sort_key_head_least [OF Cons]
    have mem: "latest \<in> set ?msgs"
      and least: "\<forall>msg \<in> set ?msgs. - sort_rank (prop_of latest ''created_at'')
                                      \<le> - sort_rank (prop_of msg ''created_at'')"
      by auto
    from mem strings obtain content where content: "prop_of latest ''content'' = Str content"
      by auto
    from mem have "0 < length ?msgs"
      by (rule length_pos_if_in_set)
    then have ne: "?msgs \<noteq> []"
      by simp
    have run: "conversation_preview (tables_env m sf pf) conv w =
                 (Inr [(''id'', prop_of conv ''id''),
                       (''lastMessageDate'', prop_of conv ''updated_at''),
                       (''preview'', Str (take 50 content))], w)"
      by (simp add: conversation_preview_tables Cons content)
    from least have most: "\<forall>msg \<in> set ?msgs. sort_rank (prop_of msg ''created_at'')
                                      \<le> sort_rank (prop_of latest ''created_at'')"
      by simp
    have "\<exists>latest \<in> set ?msgs.
            (\<forall>msg \<in> set ?msgs. sort_rank (prop_of msg ''created_at'')
                                \<le> sort_rank (prop_of latest ''created_at'')) \<and>
            (\<exists>c. prop_of latest ''content'' = Str c \<and> Str (take 50 content) = Str (take 50 c))"
      using mem most content by blast
    with ne show ?thesis
      unfolding run Let_def by (simp add: prop_of_def)
  qed
qed

lemma first_rejection_index:
  "first_rejection settled i rs = Some (j, e) \<Longrightarrow>
   i \<le> j \<and> j - i < length rs \<and> rs ! (j - i) = Inl e"
proof (induction settled i rs arbitrary: j e rule: first_rejection.induct)
  case (1 settled i)
  then show ?case by simp
next
  case (2 settled i a rs)
  from "2.prems" have "first_rejection settled (Suc i) rs = Some (j, e)"
    by simp
  from "2.IH" [OF this] have "Suc i \<le> j" "j - Suc i < length rs" "rs ! (j - Suc i) = Inl e"
    by simp_all
  then show ?case
    by (simp add: Suc_diff_le nth_Cons')
next
  case (3 settled i e0 rs)
  show ?case
  proof (cases "first_rejection settled (Suc i) rs")
    case None
    with "3.prems" show ?thesis by simp
  next
    case (Some je)
    obtain j' e' where je: "je = (j', e')"
      by (cases je)
    from "3.IH" [of j' e'] Some je
    have later: "Suc i \<le> j'" "j' - Suc i < length rs" "rs ! (j' - Suc i) = Inl e'"
      by simp_all
    show ?thesis
    proof (cases "settled j' < settled i")
      case True
      with "3.prems" Some je have "j = j'" "e = e'"
        by simp_all
      with later show ?thesis
        by (simp add: Suc_diff_le nth_Cons')
    next
      case False
      with "3.prems" Some je have "j = i" "e = e0"
        by simp_all
      then show ?thesis by simp
    qed
  qed
qed

lemma first_rejection_at:
  assumes "\<forall>k < length xs. isl (xs ! k) \<longrightarrow> settled (i + length xs) < settled (i + k)"
    and "\<forall>k < length ys. isl (ys ! k) \<longrightarrow>
           settled (i + length xs) \<le> settled (i + length xs + 1 + k)"
  shows "first_rejection settled i (xs @ Inl e # ys) = Some (i + length xs, e)"
  using assms
proof (induction xs arbitrary: i)
  case Nil
  show ?case
  proof (cases "first_rejection settled (Suc i) ys")
    case None
    then show ?thesis by simp
  next
    case (Some je)
    obtain j e' where je: "je = (j, e')"
      by (cases je)
    from first_rejection_index [of settled "Suc i" ys j e'] Some je
    have j: "Suc i \<le> j" "j - Suc i < length ys" "ys ! (j - Suc i) = Inl e'"
      by simp_all
    from Nil.prems(2) [rule_format, of "j - Suc i"] j
    have "settled i \<le> settled (i + 1 + (j - Suc i))"
      by simp
    moreover from j have "i + 1 + (j - Suc i) = j"
      by simp
    ultimately have "\<not> settled j < settled i"
      by simp
    with Some je show ?thesis by simp
  qed
next
  case (Cons x xs)
  have before: "\<forall>k < length xs. isl (xs ! k) \<longrightarrow>
                  settled (Suc i + length xs) < settled (Suc i + k)"
  proof (intro allI impI)
    fix k
    assume "k < length xs" "isl (xs ! k)"
    with Cons.prems(1) [rule_format, of "Suc k"] show "settled (Suc i + length xs) < settled (Suc i + k)"
      by simp
  qed
  have after: "\<forall>k < length ys. isl (ys ! k) \<longrightarrow>
                 settled (Suc i + length xs) \<le> settled (Suc i + length xs + 1 + k)"
    using Cons.prems(2) by simp
  have rest: "first_rejection settled (Suc i) (xs @ Inl e # ys) = Some (Suc i + length xs, e)"
    by (rule Cons.IH [OF before after])
  show ?case
  proof (cases x)
    case (Inr a)
    with rest show ?thesis by simp
  next
    case (Inl e0)
    with Cons.prems(1) [rule_format, of 0]
    have "settled (Suc i + length xs) < settled i"
      by simp
    with rest Inl show ?thesis by simp
  qed
qed

lemma settle_all_append:
  "settle_all (ps @ qs) w =
     (case settle_all ps w of (rs, w') \<Rightarrow>
        (case settle_all qs w' of (rs', w'') \<Rightarrow> (rs @ rs', w'')))"
  by (induction ps arbitrary: w) (auto split: prod.splits)

lemma length_settle_all:
  "settle_all ps w = (rs, w') \<Longrightarrow> length rs = length ps"
  by (induction ps arbitrary: w rs) (auto split: prod.splits)

lemma Promise_all_first_rejection:
  assumes before: "settle_all ps w = (rs, w1)"
    and fails: "p w1 = (Inl e, w1')"
    and after: "settle_all qs w1' = (rs', w2)"
    and sooner: "\<forall>k < length ps. isl (rs ! k) \<longrightarrow> settled (length ps) < settled k"
    and no_later: "\<forall>k < length qs. isl (rs' ! k) \<longrightarrow>
                     settled (length ps) \<le> settled (length ps + 1 + k)"
  shows "Promise_all settled (ps @ p # qs) w = (Inl e, w2)"
proof -
  have all: "settle_all (ps @ p # qs) w = (rs @ Inl e # rs', w2)"
    by (simp add: settle_all_append before fails after)
  have lb: "length rs = length ps"
    by (rule length_settle_all [OF before])
  have la: "length rs' = length qs"
    by (rule length_settle_all [OF after])
  have "first_rejection settled 0 (rs @ Inl e # rs') = Some (0 + length rs, e)"
  proof (rule first_rejection_at)
    show "\<forall>k < length rs. isl (rs ! k) \<longrightarrow> settled (0 + length rs) < settled (0 + k)"
      using sooner by (simp add: lb)
    show "\<forall>k < length rs'. isl (rs' ! k) \<longrightarrow>
            settled (0 + length rs) \<le> settled (0 + length rs + 1 + k)"
      using no_later by (simp add: lb la)
  qed
  then show ?thesis
    by (simp add: Promise_all_def all)
qed

lemma Promise_all_rejection_is_an_outcome:
  assumes "fst (Promise_all settled ps w) = Inl e"
  shows "Inl e \<in> set (fst (settle_all ps w))"
proof -
  obtain rs w' where rs: "settle_all ps w = (rs, w')"
    by (cases "settle_all ps w")
  with assms obtain j where "first_rejection settled 0 rs = Some (j, e)"
    by (auto simp: Promise_all_def split: option.splits)
  from first_rejection_index [OF this] have "j < length rs" "rs ! j = Inl e"
    by simp_all
  then have "Inl e \<in> set rs"
    by (metis nth_mem)
  with rs show ?thesis by simp
qed

lemma conversation_preview_fail:
  "knex_first env
     (OrderBy (Where (Table ''chat_messages'') ''conversation_id'' (prop_of conv ''id''))
        ''created_at'' ''desc'') (store w) = (Inl e, s') \<Longrightarrow>
   conversation_preview env conv w = (Inl e, w\<lparr>store := s'\<rparr>)"
  by (simp add: conversation_preview_def async_defs)

lemma catch_log_reject:
  "fst (body w) = Inl e \<Longrightarrow>
   fst (catch_log msg body w) = Inl e \<and> last (console (snd (catch_log msg body w))) = (msg, e)"
  by (cases "body w") (auto simp: catch_log_def)

subsection \<open>The legacy export objects\<close>

text \<open>
  C8: every field of \<open>assessmentApi\<close> is the same function as the corresponding
  individual export of the assessment module (\<open>list\<close> is \<open>getList\<close>, \<open>getById\<close> is
  \<open>getById\<close>, \<open>sendAssessment\<close> is \<open>postSend\<close>, exported as \<open>sendAssessment\<close>,
  \<open>update\<close> is \<open>putUpdate\<close>, exported as \<open>update\<close>, \<open>delete\<close> is
  \<open>deleteAssessment\<close>), every field of \<open>chatApi\<close> is the individual export of the same
  name, the objects have no other field, and the default export of each module is its
  legacy object.
\<close>

theorem legacy_exports_equal:
  fixes getList getById postSend putUpdate deleteAssessment :: 'f
    and sendMessage getHistory getConversation deleteConversation :: 'g
  shows
   "(let am = assessment_module getList getById postSend putUpdate deleteAssessment;
         cm = chat_module sendMessage getHistory getConversation deleteConversation
     in api_field am ''assessmentApi'' ''list'' = Some getList
      \<and> exported_function am ''getList'' = Some getList
      \<and> api_field am ''assessmentApi'' ''getById'' = Some getById
      \<and> exported_function am ''getById'' = Some getById
      \<and> api_field am ''assessmentApi'' ''sendAssessment'' = Some postSend
      \<and> exported_function am ''sendAssessment'' = Some postSend
      \<and> api_field am ''assessmentApi'' ''update'' = Some putUpdate
      \<and> exported_function am ''update'' = Some putUpdate
      \<and> api_field am ''assessmentApi'' ''delete'' = Some deleteAssessment
      \<and> exported_function am ''deleteAssessment'' = Some deleteAssessment
      \<and> map_of am ''assessmentApi'' =
           Some (ApiObject [(''list'', getList), (''getById'', getById),
                            (''sendAssessment'', postSend), (''update'', putUpdate),
                            (''delete'', deleteAssessment)])
      \<and> map_of am ''default'' = map_of am ''assessmentApi''
      \<and> api_field cm ''chatApi'' ''sendMessage'' = Some sendMessage
      \<and> exported_function cm ''sendMessage'' = Some sendMessage
      \<and> api_field cm ''chatApi'' ''getHistory'' = Some getHistory
      \<and> exported_function cm ''getHistory'' = Some getHistory
      \<and> api_field cm ''chatApi'' ''getConversation'' = Some getConversation
      \<and> exported_function cm ''getConversation'' = Some getConversation
      \<and> api_field cm ''chatApi'' ''deleteConversation'' = Some deleteConversation
      \<and> exported_function cm ''deleteConversation'' = Some deleteConversation
      \<and> map_of cm ''chatApi'' =
           Some (ApiObject [(''sendMessage'', sendMessage), (''getHistory'', getHistory),
                            (''getConversation'', getConversation),
                            (''deleteConversation'', deleteConversation)])
      \<and> map_of cm ''default'' = map_of cm ''chatApi'')"
  by (simp add: api_field_def exported_function_def assessment_module_def
        chat_module_def Let_def)

subsection \<open>Creation\<close>

text \<open>
  C10: \<open>Assessment.create\<close> returns a record whose \<open>createdAt\<close> and \<open>updatedAt\<close> are
  the same instant (the one \<open>new Date()\<close> gave) and whose \<open>id\<close> is the identifier
  \<open>uuidv4()\<close> generated at the call, whatever \<open>assessmentData\<close> and \<open>userId\<close> the caller
  supplied. In test mode the call always returns; in production mode it returns when the
  \<open>INSERT\<close> succeeds.
\<close>

theorem create_timestamps_and_id:
  assumes "isTestMode env \<or>
    (\<exists>rows s'. db_query env
       ''INSERT INTO assessments (id, user_id, assessment_data, created_at, updated_at) VALUES (?, ?, ?, ?, ?)''
       [Str uuid, Str userId, JSON_stringify env assessmentData, Date now, Date now] (store w)
         = (Inr rows, s'))"
  shows "\<exists>r. fst (Assessment_create env assessmentData userId uuid now w) = Inr r \<and>
           prop_of r ''createdAt'' = Date now \<and> prop_of r ''updatedAt'' = Date now \<and>
           prop_of r ''id'' = Str uuid"
  using assms
  by (auto simp: Assessment_create_def async_defs prop_of_def Let_def)

theorem create_timestamps_and_id_witness:
  "(\<exists>r. fst (Assessment_create (tables_env True (\<lambda>v. Str ''{}'') Inr) (Obj []) ''u1'' ''a1'' 7
            \<lparr>testAssessments = [], testPrototype = None, store = (\<lambda>t. []), console = []\<rparr>) = Inr r \<and>
        prop_of r ''createdAt'' = Date 7 \<and> prop_of r ''updatedAt'' = Date 7 \<and>
        prop_of r ''id'' = Str ''a1'') \<and>
   (\<exists>r. fst (Assessment_create (tables_env False (\<lambda>v. Str ''{}'') Inr) (Obj []) ''u1'' ''a1'' 7
            \<lparr>testAssessments = [], testPrototype = None, store = (\<lambda>t. []), console = []\<rparr>) = Inr r \<and>
        prop_of r ''createdAt'' = Date 7 \<and> prop_of r ''updatedAt'' = Date 7 \<and>
        prop_of r ''id'' = Str ''a1'')"
  using create_timestamps_and_id [of "tables_env True (\<lambda>v. Str ''{}'') Inr" "''a1''" "''u1''"
          "Obj []" 7 "\<lparr>testAssessments = [], testPrototype = None, store = (\<lambda>t. []), console = []\<rparr>"]
        create_timestamps_and_id [of "tables_env False (\<lambda>v. Str ''{}'') Inr" "''a1''" "''u1''"
          "Obj []" 7 "\<lparr>testAssessments = [], testPrototype = None, store = (\<lambda>t. []), console = []\<rparr>"]
  by (simp add: tables_env_def sql_query_def)

subsection \<open>Listing by user\<close>

text \<open>
  C5: every record in the list that \<open>Assessment.listByUser(userId)\<close> returns is owned by
  \<open>userId\<close>: in test mode its \<open>userId\<close> property is \<open>userId\<close>, and the call always
  returns; in production mode its \<open>user_id\<close> column is \<open>userId\<close>, and the call returns
  whenever \<open>JSON.parse\<close> accepts the \<open>assessment_data\<close> of the stored rows.
\<close>

theorem listByUser_only_owner:
  "(isTestMode env \<longrightarrow>
      (\<exists>rs. fst (Assessment_listByUser env userId w) = Inr rs \<and>
            (\<forall>r \<in> set rs. prop_of r ''userId'' = Str userId))) \<and>
   (\<forall>rs. fst (Assessment_listByUser (tables_env False sf pf) userId w') = Inr rs \<longrightarrow>
         (\<forall>r \<in> set rs. prop_of r ''user_id'' = Str userId)) \<and>
   ((\<forall>r \<in> set (store w' ''assessments''). \<exists>d. pf (prop_of r ''assessment_data'') = Inr d) \<longrightarrow>
      (\<exists>rs. fst (Assessment_listByUser (tables_env False sf pf) userId w') = Inr rs))"
proof (intro conjI impI allI)
  assume "isTestMode env"
  then show "\<exists>rs. fst (Assessment_listByUser env userId w) = Inr rs \<and>
            (\<forall>r \<in> set rs. prop_of r ''userId'' = Str userId)"
    by (simp add: listByUser_test)
next
  fix rs
  assume ok: "fst (Assessment_listByUser (tables_env False sf pf) userId w') = Inr rs"
  let ?rows = "sort_key (\<lambda>r. - sort_rank (prop_of r ''created_at''))
                 (filter (\<lambda>r. map_of r ''user_id'' = Some (Str userId)) (store w' ''assessments''))"
  from ok have p: "parse_rows pf ?rows = Inr rs"
    by (simp add: listByUser_prod split: sum.splits)
  show "\<forall>r \<in> set rs. prop_of r ''user_id'' = Str userId"
  proof
    fix r
    assume "r \<in> set rs"
    from parse_rows_keeps [OF p this] obtain a d where
      a: "a \<in> set ?rows" and r: "r = AList.update ''assessmentData'' d a"
      by blast
    from a have "map_of a ''user_id'' = Some (Str userId)"
      by simp
    with r show "prop_of r ''user_id'' = Str userId"
      by (simp add: prop_of_def update_conv')
  qed
next
  assume "\<forall>r \<in> set (store w' ''assessments''). \<exists>d. pf (prop_of r ''assessment_data'') = Inr d"
  then have "\<exists>rs. parse_rows pf (sort_key (\<lambda>r. - sort_rank (prop_of r ''created_at''))
                 (filter (\<lambda>r. map_of r ''user_id'' = Some (Str userId)) (store w' ''assessments''))) = Inr rs"
    by (intro parse_rows_total) auto
  then show "\<exists>rs. fst (Assessment_listByUser (tables_env False sf pf) userId w') = Inr rs"
    by (auto simp: listByUser_prod)
qed

theorem listByUser_only_owner_witness:
  "fst (Assessment_listByUser (tables_env True (\<lambda>v. Str ''{}'') Inr) ''u1''
          \<lparr>testAssessments =
             [(''a1'', [(''id'', Str ''a1''), (''userId'', Str ''u1'')]),
              (''a2'', [(''id'', Str ''a2''), (''userId'', Str ''u2'')])], testPrototype = None,
           store = (\<lambda>t. []), console = []\<rparr>)
     = Inr [[(''id'', Str ''a1''), (''userId'', Str ''u1'')]] \<and>
   fst (Assessment_listByUser (tables_env False (\<lambda>v. Str ''{}'') Inr) ''u1''
          \<lparr>testAssessments = [], testPrototype = None,
           store = (\<lambda>t. if t = ''assessments''
                         then [[(''id'', Str ''a1''), (''user_id'', Str ''u1''),
                                (''assessment_data'', Str ''{}'')],
                               [(''id'', Str ''a2''), (''user_id'', Str ''u2''),
                                (''assessment_data'', Str ''{}'')]]
                         else []),
           console = []\<rparr>)
     = Inr [[(''id'', Str ''a1''), (''user_id'', Str ''u1''),
             (''assessment_data'', Str ''{}''), (''assessmentData'', Str ''{}'')]]"
  using listByUser_only_owner
          [where env = "tables_env True (\<lambda>v. Str ''{}'') Inr" and userId = "''u1''"
             and w = "\<lparr>testAssessments =
                        [(''a1'', [(''id'', Str ''a1''), (''userId'', Str ''u1'')]),
                         (''a2'', [(''id'', Str ''a2''), (''userId'', Str ''u2'')])], testPrototype = None,
                      store = (\<lambda>t. []), console = []\<rparr>"
             and sf = "\<lambda>v. Str ''{}''" and pf = Inr
             and w' = "\<lparr>testAssessments = [], testPrototype = None,
                       store = (\<lambda>t. if t = ''assessments''
                         then [[(''id'', Str ''a1''), (''user_id'', Str ''u1''),
                                (''assessment_data'', Str ''{}'')],
                               [(''id'', Str ''a2''), (''user_id'', Str ''u2''),
                                (''assessment_data'', Str ''{}'')]]
                         else []),
                       console = []\<rparr>"]
  by (simp add: listByUser_test listByUser_prod prop_of_def)

subsection \<open>Identifiers that are not there\<close>

text \<open>
  C3: \<open>Assessment.update\<close> and \<open>Assessment.delete\<close> on an identifier that is not in
  the store. In test mode both raise the generic
  \<open>Error('Assessment with ID ... not found')\<close> when \<open>testAssessments[id]\<close> is not
  truthy. It is truthy, though, for a name that the empty store inherits from
  \<open>Object.prototype\<close>, such as \<open>toString\<close> or \<open>constructor\<close>: there \<open>delete\<close>
  returns \<open>true\<close> and changes nothing, and \<open>update\<close> stores and returns an object made
  of the new payload and the timestamp, and neither raises. In production mode, on an
  identifier that no row has, neither raises and nothing changes: \<open>update\<close> resolves to
  an object that holds the new payload and nothing else, \<open>delete\<close> resolves to \<open>true\<close>;
  on any identifier \<open>delete\<close> resolves to \<open>true\<close> and \<open>update\<close> to an object with the
  new payload, so the result carries no not-found signal. \<open>DbService.delete\<close> on an
  identifier that no row of the table has resolves to \<open>false\<close> and changes nothing.
\<close>

theorem not_found_on_update_and_delete:
  "(isTestMode env \<and> \<not> truthy (testAssessments_get w id') \<longrightarrow>
      fst (Assessment_update env id' assessmentData now w)
        = Inl (Error (''Assessment with ID '' @ id' @ '' not found'')) \<and>
      fst (Assessment_delete env id' w)
        = Inl (Error (''Assessment with ID '' @ id' @ '' not found''))) \<and>
   (isTestMode env \<and> inherited \<in> set Object_prototype_functions \<and>
    map_of (testAssessments w0) inherited = None \<and> testPrototype w0 = None \<longrightarrow>
      Assessment_delete env inherited w0 = (Inr True, w0) \<and>
      fst (Assessment_update env inherited assessmentData now w0)
        = Inr [(''assessmentData'', assessmentData), (''updatedAt'', Date now)] \<and>
      map_of (testAssessments (snd (Assessment_update env inherited assessmentData now w0)))
        inherited
        = Some [(''assessmentData'', assessmentData), (''updatedAt'', Date now)]) \<and>
   (filter (\<lambda>r. map_of r ''id'' = Some (Str id')) (store w' ''assessments'') = [] \<longrightarrow>
      Assessment_update (tables_env False sf pf) id' assessmentData now w'
        = (Inr [(''assessmentData'', assessmentData)], w') \<and>
      Assessment_delete (tables_env False sf pf) id' w' = (Inr True, w')) \<and>
   fst (Assessment_delete (tables_env False sf pf) id' w'') = Inr True \<and>
   (\<exists>r. fst (Assessment_update (tables_env False sf pf) id' assessmentData now w'') = Inr r \<and>
        prop_of r ''assessmentData'' = assessmentData) \<and>
   (\<not> is_object i \<and> filter (\<lambda>r. map_of r ''id'' = Some i) (store v table) = [] \<longrightarrow>
      DbService_delete (tables_env m sf pf) table i v = (Inr False, v))"
proof (intro conjI impI)
  assume t: "isTestMode env \<and> \<not> truthy (testAssessments_get w id')"
  then show "fst (Assessment_update env id' assessmentData now w)
        = Inl (Error (''Assessment with ID '' @ id' @ '' not found''))"
    by (simp add: update_test)
  from t show "fst (Assessment_delete env id' w)
        = Inl (Error (''Assessment with ID '' @ id' @ '' not found''))"
    by (simp add: delete_test)
next
  assume h: "isTestMode env \<and> inherited \<in> set Object_prototype_functions \<and>
    map_of (testAssessments w0) inherited = None \<and> testPrototype w0 = None"
  then have t: "isTestMode env" and own: "map_of (testAssessments w0) inherited = None"
    and proto: "testPrototype w0 = None" and name: "inherited \<in> set Object_prototype_functions"
    by blast+
  have get: "testAssessments_get w0 inherited = Builtin inherited"
    by (rule testAssessments_get_inherited [OF own proto name])
  from name have np: "inherited \<noteq> ''__proto__''"
    by (auto simp: Object_prototype_functions_def)
  show "Assessment_delete env inherited w0 = (Inr True, w0)"
    by (simp add: delete_test [OF t] get delete_absent_key [OF own])
  have set: "testAssessments_set inherited
               [(''assessmentData'', assessmentData), (''updatedAt'', Date now)] w0
             = w0\<lparr>testAssessments := AList.update inherited
                    [(''assessmentData'', assessmentData), (''updatedAt'', Date now)]
                    (testAssessments w0)\<rparr>"
    by (simp add: testAssessments_set_def np)
  have upd: "Assessment_update env inherited assessmentData now w0
        = (Inr [(''assessmentData'', assessmentData), (''updatedAt'', Date now)],
           w0\<lparr>testAssessments := AList.update inherited
                    [(''assessmentData'', assessmentData), (''updatedAt'', Date now)]
                    (testAssessments w0)\<rparr>)"
    by (simp add: update_test [OF t] get set)
  show "fst (Assessment_update env inherited assessmentData now w0)
        = Inr [(''assessmentData'', assessmentData), (''updatedAt'', Date now)]"
    by (simp add: upd)
  show "map_of (testAssessments (snd (Assessment_update env inherited assessmentData now w0)))
        inherited
        = Some [(''assessmentData'', assessmentData), (''updatedAt'', Date now)]"
    by (simp add: upd update_conv')
next
  assume absent: "filter (\<lambda>r. map_of r ''id'' = Some (Str id')) (store w' ''assessments'') = []"
  have same: "map (\<lambda>r. if map_of r ''id'' = Some (Str id')
                  then AList.update ''updated_at'' (Date now)
                         (AList.update ''assessment_data'' (sf assessmentData) r)
                  else r) (store w' ''assessments'') = store w' ''assessments''"
    by (rule map_if_absent [OF absent])
  show "Assessment_update (tables_env False sf pf) id' assessmentData now w'
        = (Inr [(''assessmentData'', assessmentData)], w')"
    by (simp add: update_prod Let_def same absent)
  have "filter (\<lambda>r. map_of r ''id'' \<noteq> Some (Str id')) (store w' ''assessments'')
          = store w' ''assessments''"
    by (rule filter_not_absent [OF absent])
  then show "Assessment_delete (tables_env False sf pf) id' w' = (Inr True, w')"
    by (simp add: delete_prod)
next
  show "fst (Assessment_delete (tables_env False sf pf) id' w'') = Inr True"
    by (simp add: delete_prod)
  show "\<exists>r. fst (Assessment_update (tables_env False sf pf) id' assessmentData now w'') = Inr r \<and>
        prop_of r ''assessmentData'' = assessmentData"
    by (simp add: update_prod Let_def prop_of_def update_conv')
next
  assume a: "\<not> is_object i \<and> filter (\<lambda>r. map_of r ''id'' = Some i) (store v table) = []"
  then have m: "matching (delete_query table i) = (\<lambda>r. map_of r ''id'' = Some i)"
    by (rule_tac ext) (simp add: matching_delete_query)
  from a have absent: "filter (\<lambda>r. map_of r ''id'' = Some i) (store v table) = []"
    by blast
  have "filter (\<lambda>r. \<not> map_of r ''id'' = Some i) (store v table) = store v table"
    by (rule filter_not_absent [OF absent])
  then show "DbService_delete (tables_env m sf pf) table i v = (Inr False, v)"
    by (simp add: DbService_delete_tables m absent)
qed

theorem not_found_on_update_and_delete_witness:
  "Assessment_delete (tables_env True (\<lambda>v. Str ''{}'') Inr) ''toString''
          \<lparr>testAssessments = [], testPrototype = None, store = (\<lambda>t. []), console = []\<rparr>
     = (Inr True, \<lparr>testAssessments = [], testPrototype = None, store = (\<lambda>t. []), console = []\<rparr>) \<and>
   Assessment_update (tables_env True (\<lambda>v. Str ''{}'') Inr) ''toString'' (Obj []) 7
          \<lparr>testAssessments = [], testPrototype = None, store = (\<lambda>t. []), console = []\<rparr>
     = (Inr [(''assessmentData'', Obj []), (''updatedAt'', Date 7)],
        \<lparr>testAssessments = [(''toString'', [(''assessmentData'', Obj []), (''updatedAt'', Date 7)])],
         testPrototype = None, store = (\<lambda>t. []), console = []\<rparr>) \<and>
   fst (Assessment_update (tables_env True (\<lambda>v. Str ''{}'') Inr) ''a1'' (Obj []) 7
          \<lparr>testAssessments = [], testPrototype = None, store = (\<lambda>t. []), console = []\<rparr>)
     = Inl (Error ''Assessment with ID a1 not found'') \<and>
   fst (Assessment_delete (tables_env True (\<lambda>v. Str ''{}'') Inr) ''a1''
          \<lparr>testAssessments = [], testPrototype = None, store = (\<lambda>t. []), console = []\<rparr>)
     = Inl (Error ''Assessment with ID a1 not found'') \<and>
   Assessment_update (tables_env False (\<lambda>v. Str ''{}'') Inr) ''a1'' (Obj []) 7
          \<lparr>testAssessments = [], testPrototype = None, store = (\<lambda>t. []), console = []\<rparr>
     = (Inr [(''assessmentData'', Obj [])],
        \<lparr>testAssessments = [], testPrototype = None, store = (\<lambda>t. []), console = []\<rparr>) \<and>
   Assessment_delete (tables_env False (\<lambda>v. Str ''{}'') Inr) ''a1''
          \<lparr>testAssessments = [], testPrototype = None, store = (\<lambda>t. []), console = []\<rparr>
     = (Inr True, \<lparr>testAssessments = [], testPrototype = None, store = (\<lambda>t. []), console = []\<rparr>) \<and>
   DbService_delete (tables_env False (\<lambda>v. Str ''{}'') Inr) ''users'' (Num 9)
          \<lparr>testAssessments = [], testPrototype = None, store = (\<lambda>t. []), console = []\<rparr>
     = (Inr False, \<lparr>testAssessments = [], testPrototype = None, store = (\<lambda>t. []), console = []\<rparr>)"
  using not_found_on_update_and_delete
          [where env = "tables_env True (\<lambda>v. Str ''{}'') Inr" and id' = "''a1''"
             and inherited = "''toString''"
             and assessmentData = "Obj []" and now = 7
             and w = "\<lparr>testAssessments = [], testPrototype = None, store = (\<lambda>t. []), console = []\<rparr>"
             and ?w0.0 = "\<lparr>testAssessments = [], testPrototype = None, store = (\<lambda>t. []), console = []\<rparr>"
             and w' = "\<lparr>testAssessments = [], testPrototype = None, store = (\<lambda>t. []), console = []\<rparr>"
             and w'' = "\<lparr>testAssessments = [], testPrototype = None, store = (\<lambda>t. []), console = []\<rparr>"
             and v = "\<lparr>testAssessments = [], testPrototype = None, store = (\<lambda>t. []), console = []\<rparr>"
             and sf = "\<lambda>v. Str ''{}''" and pf = Inr and m = False and i = "Num 9"
             and table = "''users''"]
  by (simp add: update_test testAssessments_get_def testAssessments_set_def
        Object_prototype_functions_def)

subsection \<open>What an update leaves alone\<close>

text \<open>
  C4: for an existing assessment, \<open>Assessment.update(id, newData)\<close> changes the payload
  and the update timestamp of the stored record, which becomes the time of the update,
  and nothing else: \<open>id\<close>, \<open>userId\<close> and \<open>createdAt\<close> (in production mode the columns
  \<open>id\<close>, \<open>user_id\<close> and \<open>created_at\<close>) and every other property keep their values, and
  the records under other identifiers are untouched.
\<close>

theorem update_changes_only_payload_and_timestamp:
  "(isTestMode env \<and> map_of (testAssessments w) id' = Some old \<longrightarrow>
      (\<exists>new. fst (Assessment_update env id' assessmentData now w) = Inr new \<and>
         map_of (testAssessments (snd (Assessment_update env id' assessmentData now w))) id'
           = Some new \<and>
         prop_of new ''assessmentData'' = assessmentData \<and>
         prop_of new ''updatedAt'' = Date now \<and>
         prop_of new ''id'' = prop_of old ''id'' \<and>
         prop_of new ''userId'' = prop_of old ''userId'' \<and>
         prop_of new ''createdAt'' = prop_of old ''createdAt'' \<and>
         (\<forall>k. k \<noteq> ''assessmentData'' \<and> k \<noteq> ''updatedAt'' \<longrightarrow> map_of new k = map_of old k)) \<and>
      (\<forall>j. j \<noteq> id' \<longrightarrow>
         map_of (testAssessments (snd (Assessment_update env id' assessmentData now w))) j
           = map_of (testAssessments w) j)) \<and>
   length (store (snd (Assessment_update (tables_env False sf pf) id' assessmentData now w')) ''assessments'')
     = length (store w' ''assessments'') \<and>
   (\<forall>n < length (store w' ''assessments'').
      (let r = store w' ''assessments'' ! n;
           r' = store (snd (Assessment_update (tables_env False sf pf) id' assessmentData now w'))
                  ''assessments'' ! n
       in if map_of r ''id'' = Some (Str id')
          then prop_of r' ''assessment_data'' = sf assessmentData \<and>
               prop_of r' ''updated_at'' = Date now \<and>
               prop_of r' ''id'' = prop_of r ''id'' \<and>
               prop_of r' ''user_id'' = prop_of r ''user_id'' \<and>
               prop_of r' ''created_at'' = prop_of r ''created_at'' \<and>
               (\<forall>k. k \<noteq> ''assessment_data'' \<and> k \<noteq> ''updated_at'' \<longrightarrow> map_of r' k = map_of r k)
          else r' = r)) \<and>
   (\<forall>t. t \<noteq> ''assessments'' \<longrightarrow>
      store (snd (Assessment_update (tables_env False sf pf) id' assessmentData now w')) t
        = store w' t)"
proof (intro conjI impI allI)
  assume t: "isTestMode env \<and> map_of (testAssessments w) id' = Some old"
  let ?new = "AList.update ''updatedAt'' (Date now) (AList.update ''assessmentData'' assessmentData old)"
  from t have u: "Assessment_update env id' assessmentData now w =
      (Inr ?new, w\<lparr>testAssessments := AList.update id' ?new (testAssessments w)\<rparr>)"
    by (simp add: update_test testAssessments_get_own testAssessments_set_own)
  show "\<exists>new. fst (Assessment_update env id' assessmentData now w) = Inr new \<and>
         map_of (testAssessments (snd (Assessment_update env id' assessmentData now w))) id'
           = Some new \<and>
         prop_of new ''assessmentData'' = assessmentData \<and>
         prop_of new ''updatedAt'' = Date now \<and>
         prop_of new ''id'' = prop_of old ''id'' \<and>
         prop_of new ''userId'' = prop_of old ''userId'' \<and>
         prop_of new ''createdAt'' = prop_of old ''createdAt'' \<and>
         (\<forall>k. k \<noteq> ''assessmentData'' \<and> k \<noteq> ''updatedAt'' \<longrightarrow> map_of new k = map_of old k)"
    by (rule exI [of _ ?new]) (simp add: u prop_of_def update_conv')
  fix j
  assume "j \<noteq> id'"
  then show "map_of (testAssessments (snd (Assessment_update env id' assessmentData now w))) j
           = map_of (testAssessments w) j"
    by (simp add: u update_conv')
next
  show "length (store (snd (Assessment_update (tables_env False sf pf) id' assessmentData now w')) ''assessments'')
     = length (store w' ''assessments'')"
    by (simp add: update_prod Let_def)
next
  fix n
  assume "n < length (store w' ''assessments'')"
  then show "let r = store w' ''assessments'' ! n;
           r' = store (snd (Assessment_update (tables_env False sf pf) id' assessmentData now w'))
                  ''assessments'' ! n
       in if map_of r ''id'' = Some (Str id')
          then prop_of r' ''assessment_data'' = sf assessmentData \<and>
               prop_of r' ''updated_at'' = Date now \<and>
               prop_of r' ''id'' = prop_of r ''id'' \<and>
               prop_of r' ''user_id'' = prop_of r ''user_id'' \<and>
               prop_of r' ''created_at'' = prop_of r ''created_at'' \<and>
               (\<forall>k. k \<noteq> ''assessment_data'' \<and> k \<noteq> ''updated_at'' \<longrightarrow> map_of r' k = map_of r k)
          else r' = r"
    by (simp add: update_prod Let_def prop_of_def update_conv')
next
  fix t :: string
  assume "t \<noteq> ''assessments''"
  then show "store (snd (Assessment_update (tables_env False sf pf) id' assessmentData now w')) t
        = store w' t"
    by (simp add: update_prod Let_def)
qed

theorem update_changes_only_payload_and_timestamp_witness:
  "fst (Assessment_update (tables_env True (\<lambda>v. Str ''{}'') Inr) ''a1'' (Obj [(''age'', Str ''30'')]) 9
          \<lparr>testAssessments =
             [(''a1'', [(''id'', Str ''a1''), (''userId'', Str ''u1''), (''assessmentData'', Obj []),
                        (''createdAt'', Date 5), (''updatedAt'', Date 5)])], testPrototype = None,
           store = (\<lambda>t. []), console = []\<rparr>)
     = Inr [(''id'', Str ''a1''), (''userId'', Str ''u1''),
            (''assessmentData'', Obj [(''age'', Str ''30'')]),
            (''createdAt'', Date 5), (''updatedAt'', Date 9)] \<and>
   store (snd (Assessment_update (tables_env False (\<lambda>v. Str ''{}'') Inr) ''a1''
                 (Obj [(''age'', Str ''30'')]) 9
          \<lparr>testAssessments = [], testPrototype = None,
           store = (\<lambda>t. if t = ''assessments''
                         then [[(''id'', Str ''a1''), (''user_id'', Str ''u1''),
                                (''assessment_data'', Str ''null''),
                                (''created_at'', Date 5), (''updated_at'', Date 5)],
                               [(''id'', Str ''a2''), (''user_id'', Str ''u2''),
                                (''assessment_data'', Str ''null''),
                                (''created_at'', Date 6), (''updated_at'', Date 6)]]
                         else []),
           console = []\<rparr>)) ''assessments''
     = [[(''id'', Str ''a1''), (''user_id'', Str ''u1''), (''assessment_data'', Str ''{}''),
         (''created_at'', Date 5), (''updated_at'', Date 9)],
        [(''id'', Str ''a2''), (''user_id'', Str ''u2''), (''assessment_data'', Str ''null''),
         (''created_at'', Date 6), (''updated_at'', Date 6)]]"
  using update_changes_only_payload_and_timestamp
          [where env = "tables_env True (\<lambda>v. Str ''{}'') Inr" and id' = "''a1''"
             and assessmentData = "Obj [(''age'', Str ''30'')]" and now = 9
             and old = "[(''id'', Str ''a1''), (''userId'', Str ''u1''), (''assessmentData'', Obj []),
                        (''createdAt'', Date 5), (''updatedAt'', Date 5)]"
             and w = "\<lparr>testAssessments =
                        [(''a1'', [(''id'', Str ''a1''), (''userId'', Str ''u1''),
                                   (''assessmentData'', Obj []),
                                   (''createdAt'', Date 5), (''updatedAt'', Date 5)])], testPrototype = None,
                      store = (\<lambda>t. []), console = []\<rparr>"
             and sf = "\<lambda>v. Str ''{}''" and pf = Inr
             and w' = "\<lparr>testAssessments = [], testPrototype = None,
                       store = (\<lambda>t. if t = ''assessments''
                         then [[(''id'', Str ''a1''), (''user_id'', Str ''u1''),
                                (''assessment_data'', Str ''null''),
                                (''created_at'', Date 5), (''updated_at'', Date 5)],
                               [(''id'', Str ''a2''), (''user_id'', Str ''u2''),
                                (''assessment_data'', Str ''null''),
                                (''created_at'', Date 6), (''updated_at'', Date 6)]]
                         else []),
                       console = []\<rparr>"]
  by (simp add: update_test update_prod Let_def testAssessments_get_def testAssessments_set_def)

subsection \<open>Reading back what was created\<close>

text \<open>
  C1: creating an assessment and reading it back with \<open>findById\<close> on the returned
  identifier. In test mode the record read back has the created payload as its
  \<open>assessmentData\<close>. In production mode, whenever \<open>create\<close> succeeds, \<open>findById\<close>
  returns the stored row as it is: the payload is there only as the
  \<open>JSON.stringify\<close> text in the column \<open>assessment_data\<close>, and the record has no
  \<open>assessmentData\<close> property (reading it gives \<open>undefined\<close>), unlike the records of
  \<open>listByUser\<close>, which parses the column.
\<close>

theorem create_then_findById:
  "(isTestMode env \<longrightarrow>
      (\<exists>found. fst (Assessment_findById env uuid
                      (snd (Assessment_create env assessmentData userId uuid now w)))
                 = Inr (Obj found) \<and>
               prop_of found ''assessmentData'' = assessmentData)) \<and>
   (fst (Assessment_create (tables_env False sf pf) assessmentData userId uuid now w') = Inr created \<longrightarrow>
      fst (Assessment_findById (tables_env False sf pf) uuid
             (snd (Assessment_create (tables_env False sf pf) assessmentData userId uuid now w')))
        = Inr (Obj [(''id'', Str uuid), (''user_id'', Str userId),
                     (''assessment_data'', sf assessmentData),
                     (''created_at'', Date now), (''updated_at'', Date now)]) \<and>
      prop_of [(''id'', Str uuid), (''user_id'', Str userId),
               (''assessment_data'', sf assessmentData),
               (''created_at'', Date now), (''updated_at'', Date now)] ''assessmentData''
        = Undefined)"
proof (intro conjI impI)
  assume t: "isTestMode env"
  show "\<exists>found. fst (Assessment_findById env uuid
                      (snd (Assessment_create env assessmentData userId uuid now w)))
                 = Inr (Obj found) \<and>
               prop_of found ''assessmentData'' = assessmentData"
  proof -
    let ?rec = "[(''id'', Str uuid), (''userId'', Str userId), (''assessmentData'', assessmentData),
                 (''createdAt'', Date now), (''updatedAt'', Date now)]"
    have stored: "testAssessments_get (testAssessments_set uuid ?rec w) uuid = Obj ?rec"
      by (rule testAssessments_get_after_set) simp
    then have "Assessment_findById env uuid (testAssessments_set uuid ?rec w)
                 = (Inr (Obj ?rec), testAssessments_set uuid ?rec w)"
      by (simp add: findById_test_hit [OF t])
    then show ?thesis
      by (simp add: create_test [OF t] prop_of_def)
  qed
next
  assume c: "fst (Assessment_create (tables_env False sf pf) assessmentData userId uuid now w') = Inr created"
  then have fresh: "filter (\<lambda>r. map_of r ''id'' = Some (Str uuid)) (store w' ''assessments'') = []"
    by (simp add: create_prod split: if_splits)
  then show "fst (Assessment_findById (tables_env False sf pf) uuid
             (snd (Assessment_create (tables_env False sf pf) assessmentData userId uuid now w')))
        = Inr (Obj [(''id'', Str uuid), (''user_id'', Str userId),
                     (''assessment_data'', sf assessmentData),
                     (''created_at'', Date now), (''updated_at'', Date now)])"
    by (simp add: create_prod findById_prod)
  show "prop_of [(''id'', Str uuid), (''user_id'', Str userId),
               (''assessment_data'', sf assessmentData),
               (''created_at'', Date now), (''updated_at'', Date now)] ''assessmentData''
        = Undefined"
    by (simp add: prop_of_def)
qed

theorem create_then_findById_witness:
  "fst (Assessment_findById (tables_env False (\<lambda>v. Str ''{}'') Inr) ''a1''
          (snd (Assessment_create (tables_env False (\<lambda>v. Str ''{}'') Inr)
                  (Obj [(''age'', Str ''25-34'')]) ''u1'' ''a1'' 7
                  \<lparr>testAssessments = [], testPrototype = None, store = (\<lambda>t. []), console = []\<rparr>)))
     = Inr (Obj [(''id'', Str ''a1''), (''user_id'', Str ''u1''),
                  (''assessment_data'', Str ''{}''),
                  (''created_at'', Date 7), (''updated_at'', Date 7)]) \<and>
   prop_of [(''id'', Str ''a1''), (''user_id'', Str ''u1''),
            (''assessment_data'', Str ''{}''),
            (''created_at'', Date 7), (''updated_at'', Date 7)] ''assessmentData''
     \<noteq> Obj [(''age'', Str ''25-34'')] \<and>
   (\<exists>found. fst (Assessment_findById (tables_env True (\<lambda>v. Str ''{}'') Inr) ''a1''
          (snd (Assessment_create (tables_env True (\<lambda>v. Str ''{}'') Inr)
                  (Obj [(''age'', Str ''25-34'')]) ''u1'' ''a1'' 7
                  \<lparr>testAssessments = [], testPrototype = None, store = (\<lambda>t. []), console = []\<rparr>)))
       = Inr (Obj found) \<and> prop_of found ''assessmentData'' = Obj [(''age'', Str ''25-34'')])"
  using create_then_findById
          [where env = "tables_env True (\<lambda>v. Str ''{}'') Inr" and uuid = "''a1''"
             and userId = "''u1''" and assessmentData = "Obj [(''age'', Str ''25-34'')]"
             and now = 7 and sf = "\<lambda>v. Str ''{}''" and pf = Inr
             and w = "\<lparr>testAssessments = [], testPrototype = None, store = (\<lambda>t. []), console = []\<rparr>"
             and w' = "\<lparr>testAssessments = [], testPrototype = None, store = (\<lambda>t. []), console = []\<rparr>"
             and created = "[(''id'', Str ''a1''), (''userId'', Str ''u1''),
                             (''assessmentData'', Obj [(''age'', Str ''25-34'')]),
                             (''createdAt'', Date 7), (''updatedAt'', Date 7)]"]
  by (simp add: create_prod)

subsection \<open>Reading after a delete\<close>

text \<open>
  C2: \<open>findById(id)\<close> after a \<open>delete(id)\<close> that succeeded. In test mode the own entry
  is gone after the delete, and \<open>findById\<close>, unless \<open>testAssessments[id]\<close> is still
  truthy, gives the answer of the database query: \<open>null\<close> when the \<open>assessments\<close> table
  has no row with that identifier, and otherwise the first such row. For a name that the
  empty store inherits from \<open>Object.prototype\<close>, such as \<open>constructor\<close>, \<open>delete\<close>
  returns \<open>true\<close> without changing anything and \<open>findById\<close> returns the inherited
  function, not \<open>null\<close>. In production mode \<open>delete\<close> succeeds and \<open>findById\<close> then
  returns \<open>null\<close>; and after \<open>DbService.delete(table, id)\<close> with an identifier that is
  not an object, \<open>DbService.findById(table, id)\<close> returns \<open>null\<close>.
\<close>

theorem delete_then_findById:
  "(isTestMode env \<and> fst (Assessment_delete env id' w0) = Inr b0 \<longrightarrow>
      map_of (testAssessments (snd (Assessment_delete env id' w0))) id' = None) \<and>
   (fst (Assessment_delete (tables_env True sf pf) id' w) = Inr b \<and>
    \<not> truthy (testAssessments_get (snd (Assessment_delete (tables_env True sf pf) id' w)) id') \<longrightarrow>
      fst (Assessment_findById (tables_env True sf pf) id'
             (snd (Assessment_delete (tables_env True sf pf) id' w)))
        = Inr (case filter (\<lambda>r. map_of r ''id'' = Some (Str id')) (store w ''assessments'') of
                 [] \<Rightarrow> Null | r # _ \<Rightarrow> Obj r)) \<and>
   (isTestMode env \<and> inherited \<in> set Object_prototype_functions \<and>
    map_of (testAssessments v) inherited = None \<and> testPrototype v = None \<longrightarrow>
      Assessment_delete env inherited v = (Inr True, v) \<and>
      Assessment_findById env inherited v = (Inr (Builtin inherited), v)) \<and>
   fst (Assessment_delete (tables_env False sf pf) id' w') = Inr True \<and>
   fst (Assessment_findById (tables_env False sf pf) id'
          (snd (Assessment_delete (tables_env False sf pf) id' w'))) = Inr Null \<and>
   (\<not> is_object i \<longrightarrow>
      (\<exists>deleted. fst (DbService_delete (tables_env m sf pf) table i w'') = Inr deleted) \<and>
      fst (DbService_findById (tables_env m sf pf) table i
             (snd (DbService_delete (tables_env m sf pf) table i w''))) = Inr None)"
proof (intro conjI impI)
  assume "isTestMode env \<and> fst (Assessment_delete env id' w0) = Inr b0"
  then show "map_of (testAssessments (snd (Assessment_delete env id' w0))) id' = None"
    by (auto simp: delete_test delete_conv' split: if_splits)
next
  assume a: "fst (Assessment_delete (tables_env True sf pf) id' w) = Inr b \<and>
    \<not> truthy (testAssessments_get (snd (Assessment_delete (tables_env True sf pf) id' w)) id')"
  then have hit: "truthy (testAssessments_get w id')"
    by (auto simp: delete_test split: if_splits)
  then have d: "Assessment_delete (tables_env True sf pf) id' w =
             (Inr True, w\<lparr>testAssessments := AList.delete id' (testAssessments w)\<rparr>)"
    by (simp add: delete_test)
  with a have "\<not> truthy (testAssessments_get
                  (w\<lparr>testAssessments := AList.delete id' (testAssessments w)\<rparr>) id')"
    by simp
  from findById_test_miss [OF this]
  show "fst (Assessment_findById (tables_env True sf pf) id'
             (snd (Assessment_delete (tables_env True sf pf) id' w)))
        = Inr (case filter (\<lambda>r. map_of r ''id'' = Some (Str id')) (store w ''assessments'') of
                 [] \<Rightarrow> Null | r # _ \<Rightarrow> Obj r)"
    by (simp add: d)
next
  assume h: "isTestMode env \<and> inherited \<in> set Object_prototype_functions \<and>
    map_of (testAssessments v) inherited = None \<and> testPrototype v = None"
  then have t: "isTestMode env" and own: "map_of (testAssessments v) inherited = None"
    and proto: "testPrototype v = None" and name: "inherited \<in> set Object_prototype_functions"
    by blast+
  have get: "testAssessments_get v inherited = Builtin inherited"
    by (rule testAssessments_get_inherited [OF own proto name])
  show "Assessment_delete env inherited v = (Inr True, v)"
    by (simp add: delete_test [OF t] get delete_absent_key [OF own])
  show "Assessment_findById env inherited v = (Inr (Builtin inherited), v)"
    using findById_test_hit [OF t, of v inherited] by (simp add: get)
next
  show "fst (Assessment_delete (tables_env False sf pf) id' w') = Inr True"
    by (simp add: delete_prod)
  have "filter (\<lambda>r. map_of r ''id'' = Some (Str id'))
          (filter (\<lambda>r. \<not> map_of r ''id'' = Some (Str id')) (store w' ''assessments'')) = []"
    by (rule filter_filter_not)
  then show "fst (Assessment_findById (tables_env False sf pf) id'
          (snd (Assessment_delete (tables_env False sf pf) id' w'))) = Inr Null"
    by (simp add: delete_prod findById_prod)
next
  assume i: "\<not> is_object i"
  show "\<exists>deleted. fst (DbService_delete (tables_env m sf pf) table i w'') = Inr deleted"
    by (simp add: DbService_delete_tables)
  have "filter (\<lambda>r. map_of r ''id'' = Some i)
          (filter (\<lambda>r. \<not> map_of r ''id'' = Some i) (store w'' table)) = []"
    by (rule filter_filter_not)
  then show "fst (DbService_findById (tables_env m sf pf) table i
             (snd (DbService_delete (tables_env m sf pf) table i w''))) = Inr None"
    using i by (simp add: DbService_delete_tables DbService_findById_tables matching_delete_query)
qed

theorem delete_then_findById_witness:
  "Assessment_delete (tables_env True (\<lambda>v. Str ''{}'') Inr) ''constructor''
          \<lparr>testAssessments = [], testPrototype = None, store = (\<lambda>t. []), console = []\<rparr>
     = (Inr True, \<lparr>testAssessments = [], testPrototype = None, store = (\<lambda>t. []), console = []\<rparr>) \<and>
   fst (Assessment_findById (tables_env True (\<lambda>v. Str ''{}'') Inr) ''constructor''
          \<lparr>testAssessments = [], testPrototype = None, store = (\<lambda>t. []), console = []\<rparr>)
     = Inr (Builtin ''constructor'') \<and>
   fst (Assessment_delete (tables_env True (\<lambda>v. Str ''{}'') Inr) ''a1''
          \<lparr>testAssessments = [(''a1'', [(''id'', Str ''a1''), (''userId'', Str ''u1'')])],
           testPrototype = None,
           store = (\<lambda>t. if t = ''assessments''
                         then [[(''id'', Str ''a1''), (''user_id'', Str ''u0'')]] else []),
           console = []\<rparr>) = Inr True \<and>
   fst (Assessment_findById (tables_env True (\<lambda>v. Str ''{}'') Inr) ''a1''
          (snd (Assessment_delete (tables_env True (\<lambda>v. Str ''{}'') Inr) ''a1''
                  \<lparr>testAssessments = [(''a1'', [(''id'', Str ''a1''), (''userId'', Str ''u1'')])],
                   testPrototype = None,
                   store = (\<lambda>t. if t = ''assessments''
                                 then [[(''id'', Str ''a1''), (''user_id'', Str ''u0'')]] else []),
                   console = []\<rparr>)))
     = Inr (Obj [(''id'', Str ''a1''), (''user_id'', Str ''u0'')]) \<and>
   fst (Assessment_findById (tables_env True (\<lambda>v. Str ''{}'') Inr) ''a1''
          (snd (Assessment_delete (tables_env True (\<lambda>v. Str ''{}'') Inr) ''a1''
                  \<lparr>testAssessments = [(''a1'', [(''id'', Str ''a1''), (''userId'', Str ''u1'')])],
                   testPrototype = None, store = (\<lambda>t. []), console = []\<rparr>))) = Inr Null \<and>
   fst (Assessment_findById (tables_env False (\<lambda>v. Str ''{}'') Inr) ''a1''
          (snd (Assessment_delete (tables_env False (\<lambda>v. Str ''{}'') Inr) ''a1''
                  \<lparr>testAssessments = [], testPrototype = None,
                   store = (\<lambda>t. if t = ''assessments''
                                 then [[(''id'', Str ''a1''), (''user_id'', Str ''u1'')]] else []),
                   console = []\<rparr>))) = Inr Null \<and>
   fst (DbService_delete (tables_env False (\<lambda>v. Str ''{}'') Inr) ''users'' (Num 5)
          \<lparr>testAssessments = [], testPrototype = None,
           store = (\<lambda>t. if t = ''users'' then [[(''id'', Num 5), (''username'', Str ''ann'')]] else []),
           console = []\<rparr>) = Inr True \<and>
   fst (DbService_findById (tables_env False (\<lambda>v. Str ''{}'') Inr) ''users'' (Num 5)
          (snd (DbService_delete (tables_env False (\<lambda>v. Str ''{}'') Inr) ''users'' (Num 5)
                  \<lparr>testAssessments = [], testPrototype = None,
                   store = (\<lambda>t. if t = ''users''
                                 then [[(''id'', Num 5), (''username'', Str ''ann'')]] else []),
                   console = []\<rparr>))) = Inr None"
  using delete_then_findById
          [where env = "tables_env True (\<lambda>v. Str ''{}'') Inr" and id' = "''a1''" and b0 = True
             and b = True and sf = "\<lambda>v. Str ''{}''" and pf = Inr and m = False
             and i = "Num 5" and table = "''users''" and inherited = "''constructor''"
             and v = "\<lparr>testAssessments = [], testPrototype = None, store = (\<lambda>t. []), console = []\<rparr>"
             and ?w0.0 = "\<lparr>testAssessments = [(''a1'', [(''id'', Str ''a1''), (''userId'', Str ''u1'')])],
                       testPrototype = None, store = (\<lambda>t. []), console = []\<rparr>"
             and w = "\<lparr>testAssessments = [(''a1'', [(''id'', Str ''a1''), (''userId'', Str ''u1'')])],
                      testPrototype = None,
                      store = (\<lambda>t. if t = ''assessments''
                                 then [[(''id'', Str ''a1''), (''user_id'', Str ''u0'')]] else []),
                      console = []\<rparr>"
             and w' = "\<lparr>testAssessments = [], testPrototype = None,
                       store = (\<lambda>t. if t = ''assessments''
                                 then [[(''id'', Str ''a1''), (''user_id'', Str ''u1'')]] else []),
                       console = []\<rparr>"
             and w'' = "\<lparr>testAssessments = [], testPrototype = None,
                        store = (\<lambda>t. if t = ''users''
                                 then [[(''id'', Num 5), (''username'', Str ''ann'')]] else []),
                        console = []\<rparr>"]
  by (simp add: delete_test findById_test_miss findById_test_hit DbService_delete_tables
        matching_delete_query testAssessments_get_def Object_prototype_functions_def)

subsection \<open>Deleting by conditions\<close>

text \<open>
  C9: \<open>DbService.delete(table, option)\<close> with a non-null object as \<open>option\<close> deletes
  from the table exactly the records in which every listed field has the listed value,
  and with any other \<open>option\<close> exactly the records whose \<open>id\<close> is \<open>option\<close>; the other
  tables are untouched; and it returns \<open>true\<close> if and only if at least one record was
  deleted, that is, if and only if the table has become shorter.
\<close>

theorem delete_by_conditions:
  "(is_object option \<longrightarrow>
      store (snd (DbService_delete (tables_env m sf pf) table option w)) table
        = filter (\<lambda>r. \<not> (\<forall>(k, v) \<in> set (entries option). map_of r k = Some v)) (store w table) \<and>
      fst (DbService_delete (tables_env m sf pf) table option w)
        = Inr (\<exists>r \<in> set (store w table). \<forall>(k, v) \<in> set (entries option). map_of r k = Some v)) \<and>
   (\<not> is_object option \<longrightarrow>
      store (snd (DbService_delete (tables_env m sf pf) table option w)) table
        = filter (\<lambda>r. map_of r ''id'' \<noteq> Some option) (store w table) \<and>
      fst (DbService_delete (tables_env m sf pf) table option w)
        = Inr (\<exists>r \<in> set (store w table). map_of r ''id'' = Some option)) \<and>
   fst (DbService_delete (tables_env m sf pf) table option w)
     = Inr (length (store (snd (DbService_delete (tables_env m sf pf) table option w)) table)
              < length (store w table)) \<and>
   (\<forall>t. t \<noteq> table \<longrightarrow>
      store (snd (DbService_delete (tables_env m sf pf) table option w)) t = store w t)"
proof (intro conjI impI allI)
  assume obj: "is_object option"
  then have m: "matching (delete_query table option) =
                  (\<lambda>r. \<forall>(k, v) \<in> set (entries option). map_of r k = Some v)"
    by (rule_tac ext) (simp add: matching_delete_query list_all_iff)
  show "store (snd (DbService_delete (tables_env m sf pf) table option w)) table
        = filter (\<lambda>r. \<not> (\<forall>(k, v) \<in> set (entries option). map_of r k = Some v)) (store w table)"
    by (simp add: DbService_delete_tables m)
  show "fst (DbService_delete (tables_env m sf pf) table option w)
        = Inr (\<exists>r \<in> set (store w table). \<forall>(k, v) \<in> set (entries option). map_of r k = Some v)"
    by (simp add: DbService_delete_tables m filter_empty_conv)
next
  assume nobj: "\<not> is_object option"
  then have m: "matching (delete_query table option) = (\<lambda>r. map_of r ''id'' = Some option)"
    by (rule_tac ext) (simp add: matching_delete_query)
  show "store (snd (DbService_delete (tables_env m sf pf) table option w)) table
        = filter (\<lambda>r. map_of r ''id'' \<noteq> Some option) (store w table)"
    by (simp add: DbService_delete_tables m)
  show "fst (DbService_delete (tables_env m sf pf) table option w)
        = Inr (\<exists>r \<in> set (store w table). map_of r ''id'' = Some option)"
    by (simp add: DbService_delete_tables m filter_empty_conv)
next
  show "fst (DbService_delete (tables_env m sf pf) table option w)
     = Inr (length (store (snd (DbService_delete (tables_env m sf pf) table option w)) table)
              < length (store w table))"
    by (simp add: DbService_delete_tables filter_nonempty_iff_shorter)
next
  fix t :: string
  assume "t \<noteq> table"
  then show "store (snd (DbService_delete (tables_env m sf pf) table option w)) t = store w t"
    by (simp add: DbService_delete_tables)
qed

theorem delete_by_conditions_witness:
  "DbService_delete (tables_env False (\<lambda>v. Str ''{}'') Inr) ''symptoms''
     (Obj [(''assessment_id'', Str ''a1''), (''symptom_name'', Str ''cramps'')])
     \<lparr>testAssessments = [], testPrototype = None,
      store = (\<lambda>t. if t = ''symptoms''
                    then [[(''id'', Num 1), (''assessment_id'', Str ''a1''), (''symptom_name'', Str ''cramps'')],
                          [(''id'', Num 2), (''assessment_id'', Str ''a1''), (''symptom_name'', Str ''nausea'')],
                          [(''id'', Num 3), (''assessment_id'', Str ''a2''), (''symptom_name'', Str ''cramps'')]]
                    else []),
      console = []\<rparr>
   = (Inr True,
      \<lparr>testAssessments = [], testPrototype = None,
       store = (\<lambda>t. if t = ''symptoms''
                    then [[(''id'', Num 1), (''assessment_id'', Str ''a1''), (''symptom_name'', Str ''cramps'')],
                          [(''id'', Num 2), (''assessment_id'', Str ''a1''), (''symptom_name'', Str ''nausea'')],
                          [(''id'', Num 3), (''assessment_id'', Str ''a2''), (''symptom_name'', Str ''cramps'')]]
                    else [])
               (''symptoms'' :=
                  [[(''id'', Num 2), (''assessment_id'', Str ''a1''), (''symptom_name'', Str ''nausea'')],
                   [(''id'', Num 3), (''assessment_id'', Str ''a2''), (''symptom_name'', Str ''cramps'')]]),
       console = []\<rparr>) \<and>
   fst (DbService_delete (tables_env False (\<lambda>v. Str ''{}'') Inr) ''symptoms'' (Num 9)
     \<lparr>testAssessments = [], testPrototype = None,
      store = (\<lambda>t. if t = ''symptoms''
                    then [[(''id'', Num 1), (''assessment_id'', Str ''a1''), (''symptom_name'', Str ''cramps'')]]
                    else []),
      console = []\<rparr>) = Inr False \<and>
   store (snd (DbService_delete (tables_env False (\<lambda>v. Str ''{}'') Inr) ''symptoms'' (Num 1)
     \<lparr>testAssessments = [], testPrototype = None,
      store = (\<lambda>t. if t = ''symptoms''
                    then [[(''id'', Num 1), (''assessment_id'', Str ''a1''), (''symptom_name'', Str ''cramps'')]]
                    else []),
      console = []\<rparr>)) ''symptoms'' = []"
  using delete_by_conditions
          [where m = False and sf = "\<lambda>v. Str ''{}''" and pf = Inr and table = "''symptoms''"
             and option = "Obj [(''assessment_id'', Str ''a1''), (''symptom_name'', Str ''cramps'')]"
             and w = "\<lparr>testAssessments = [], testPrototype = None,
      store = (\<lambda>t. if t = ''symptoms''
                    then [[(''id'', Num 1), (''assessment_id'', Str ''a1''), (''symptom_name'', Str ''cramps'')],
                          [(''id'', Num 2), (''assessment_id'', Str ''a1''), (''symptom_name'', Str ''nausea'')],
                          [(''id'', Num 3), (''assessment_id'', Str ''a2''), (''symptom_name'', Str ''cramps'')]]
                    else []),
      console = []\<rparr>"]
        delete_by_conditions
          [where m = False and sf = "\<lambda>v. Str ''{}''" and pf = Inr and table = "''symptoms''"
             and option = "Num 9"
             and w = "\<lparr>testAssessments = [], testPrototype = None,
      store = (\<lambda>t. if t = ''symptoms''
                    then [[(''id'', Num 1), (''assessment_id'', Str ''a1''), (''symptom_name'', Str ''cramps'')]]
                    else []),
      console = []\<rparr>"]
  by (simp add: DbService_delete_tables matching_delete_query)

subsection \<open>Conversations with previews\<close>

text \<open>
  C6: when the contents of the chat messages are strings,
  \<open>DbService.getConversationsWithPreviews(userId)\<close> returns one entry for each
  conversation of that user, most recently updated first, and changes nothing, in
  whatever order the lookups settle. The entry of a conversation carries its \<open>id\<close> and,
  as \<open>lastMessageDate\<close>, its \<open>updated_at\<close>; its \<open>preview\<close> is the empty string when the
  conversation has no message, and otherwise the first 50 characters of the content of a
  message of the conversation that none of its messages is more recent than.
\<close>

theorem conversations_with_previews:
  assumes strings: "\<forall>msg \<in> set (store w ''chat_messages''). \<exists>s. prop_of msg ''content'' = Str s"
  shows "\<exists>entries.
     DbService_getConversationsWithPreviews (tables_env m sf pf) settled userId w = (Inr entries, w) \<and>
     length entries = length (filter (\<lambda>conv. map_of conv ''user_id'' = Some (Str userId))
                                (store w ''conversations'')) \<and>
     list_all2
       (\<lambda>conv entry.
          prop_of entry ''id'' = prop_of conv ''id'' \<and>
          prop_of entry ''lastMessageDate'' = prop_of conv ''updated_at'' \<and>
          (let msgs = filter (\<lambda>msg. map_of msg ''conversation_id'' = Some (prop_of conv ''id''))
                        (store w ''chat_messages'')
           in if msgs = [] then prop_of entry ''preview'' = Str []
              else \<exists>latest \<in> set msgs.
                     (\<forall>msg \<in> set msgs. sort_rank (prop_of msg ''created_at'')
                                         \<le> sort_rank (prop_of latest ''created_at'')) \<and>
                     (\<exists>content. prop_of latest ''content'' = Str content \<and>
                                prop_of entry ''preview'' = Str (take 50 content))))
       (sort_key (\<lambda>conv. - sort_rank (prop_of conv ''updated_at''))
          (filter (\<lambda>conv. map_of conv ''user_id'' = Some (Str userId)) (store w ''conversations'')))
       entries"
proof -
  let ?convs = "sort_key (\<lambda>conv. - sort_rank (prop_of conv ''updated_at''))
          (filter (\<lambda>conv. map_of conv ''user_id'' = Some (Str userId)) (store w ''conversations''))"
  let ?P = "\<lambda>conv entry.
          prop_of entry ''id'' = prop_of conv ''id'' \<and>
          prop_of entry ''lastMessageDate'' = prop_of conv ''updated_at'' \<and>
          (let msgs = filter (\<lambda>msg. map_of msg ''conversation_id'' = Some (prop_of conv ''id''))
                        (store w ''chat_messages'')
           in if msgs = [] then prop_of entry ''preview'' = Str []
              else \<exists>latest \<in> set msgs.
                     (\<forall>msg \<in> set msgs. sort_rank (prop_of msg ''created_at'')
                                         \<le> sort_rank (prop_of latest ''created_at'')) \<and>
                     (\<exists>content. prop_of latest ''content'' = Str content \<and>
                                prop_of entry ''preview'' = Str (take 50 content)))"
  have "\<exists>entries. Promise_all settled (map (conversation_preview (tables_env m sf pf)) ?convs) w
                    = (Inr entries, w) \<and> list_all2 ?P ?convs entries"
    by (rule Promise_all_list_all2) (rule conversation_preview_entry [OF strings])
  then obtain entries where
    run: "Promise_all settled (map (conversation_preview (tables_env m sf pf)) ?convs) w = (Inr entries, w)"
    and ok: "list_all2 ?P ?convs entries"
    by blast
  have whole: "DbService_getConversationsWithPreviews (tables_env m sf pf) settled userId w = (Inr entries, w)"
    by (simp add: DbService_getConversationsWithPreviews_def async_defs tables_rows_def
          select_rows_def matching_ordered_where run)
  have "length ?convs = length entries"
    by (rule list_all2_lengthD [OF ok])
  then have len: "length entries = length (filter (\<lambda>conv. map_of conv ''user_id'' = Some (Str userId))
                                (store w ''conversations''))"
    by simp
  from whole len ok show ?thesis
    by blast
qed

theorem conversations_with_previews_witness:
  "DbService_getConversationsWithPreviews (tables_env False (\<lambda>v. Str ''{}'') Inr) (\<lambda>i. 0) ''u1''
     \<lparr>testAssessments = [], testPrototype = None,
      store = (\<lambda>t. if t = ''conversations''
                    then [[(''id'', Str ''c1''), (''user_id'', Str ''u1''), (''updated_at'', Date 10)],
                          [(''id'', Str ''c2''), (''user_id'', Str ''u2''), (''updated_at'', Date 20)],
                          [(''id'', Str ''c3''), (''user_id'', Str ''u1''), (''updated_at'', Date 30)]]
                    else if t = ''chat_messages''
                    then [[(''conversation_id'', Str ''c1''), (''content'', Str ''hello''),
                           (''created_at'', Date 1)],
                          [(''conversation_id'', Str ''c1''),
                           (''content'', Str ''0123456789012345678901234567890123456789012345678901234''),
                           (''created_at'', Date 2)],
                          [(''conversation_id'', Str ''c2''), (''content'', Str ''other''),
                           (''created_at'', Date 3)]]
                    else []),
      console = []\<rparr>
   = (Inr [[(''id'', Str ''c3''), (''lastMessageDate'', Date 30), (''preview'', Str [])],
           [(''id'', Str ''c1''), (''lastMessageDate'', Date 10),
            (''preview'', Str ''01234567890123456789012345678901234567890123456789'')]],
      \<lparr>testAssessments = [], testPrototype = None,
      store = (\<lambda>t. if t = ''conversations''
                    then [[(''id'', Str ''c1''), (''user_id'', Str ''u1''), (''updated_at'', Date 10)],
                          [(''id'', Str ''c2''), (''user_id'', Str ''u2''), (''updated_at'', Date 20)],
                          [(''id'', Str ''c3''), (''user_id'', Str ''u1''), (''updated_at'', Date 30)]]
                    else if t = ''chat_messages''
                    then [[(''conversation_id'', Str ''c1''), (''content'', Str ''hello''),
                           (''created_at'', Date 1)],
                          [(''conversation_id'', Str ''c1''),
                           (''content'', Str ''0123456789012345678901234567890123456789012345678901234''),
                           (''created_at'', Date 2)],
                          [(''conversation_id'', Str ''c2''), (''content'', Str ''other''),
                           (''created_at'', Date 3)]]
                    else []),
      console = []\<rparr>)"
  using conversations_with_previews
          [where m = False and settled = "\<lambda>i. 0" and sf = "\<lambda>v. Str ''{}''" and pf = Inr and userId = "''u1''"
             and w = "\<lparr>testAssessments = [], testPrototype = None,
      store = (\<lambda>t. if t = ''conversations''
                    then [[(''id'', Str ''c1''), (''user_id'', Str ''u1''), (''updated_at'', Date 10)],
                          [(''id'', Str ''c2''), (''user_id'', Str ''u2''), (''updated_at'', Date 20)],
                          [(''id'', Str ''c3''), (''user_id'', Str ''u1''), (''updated_at'', Date 30)]]
                    else if t = ''chat_messages''
                    then [[(''conversation_id'', Str ''c1''), (''content'', Str ''hello''),
                           (''created_at'', Date 1)],
                          [(''conversation_id'', Str ''c1''),
                           (''content'', Str ''0123456789012345678901234567890123456789012345678901234''),
                           (''created_at'', Date 2)],
                          [(''conversation_id'', Str ''c2''), (''content'', Str ''other''),
                           (''created_at'', Date 3)]]
                    else []),
      console = []\<rparr>"]
  by (simp add: DbService_getConversationsWithPreviews_def async_defs tables_rows_def
        select_rows_def matching_ordered_where conversation_preview_tables prop_of_def
        Promise_all_def)

subsection \<open>Errors of the datastore\<close>

text \<open>
  C7, as the claim states it, fails in the fan-out of
  \<open>getConversationsWithPreviews\<close>: a user has two conversations and both lookups of the
  latest message fail, the first with the error \<open>slow\<close> and the second, which settles
  sooner, with the error \<open>fast\<close>. The datastore call for the first conversation has
  failed with \<open>slow\<close>, and the operation rejects with \<open>fast\<close>.
\<close>

theorem datastore_errors_propagate_counterexample:
  "fst (knex_first
          \<lparr>isTestMode = False, JSON_stringify = (\<lambda>v. Str ''{}''), JSON_parse = Inr,
          db_query = (\<lambda>sql params s. (Inr None, s)),
          knex_rows = (\<lambda>q s. (Inr [[(''id'', Str ''c1'')], [(''id'', Str ''c2'')]], s)),
          knex_first =
            (\<lambda>q s. (if q = OrderBy (Where (Table ''chat_messages'') ''conversation_id'' (Str ''c1''))
                                ''created_at'' ''desc''
                        then Inl (DatastoreError ''slow'')
                        else Inl (DatastoreError ''fast''), s)),
          knex_insert = (\<lambda>q d s. (Inr [], s)),
          knex_update = (\<lambda>q d s. (Inr 0, s)),
          knex_delete = (\<lambda>q s. (Inr 0, s))\<rparr>
          (OrderBy (Where (Table ''chat_messages'') ''conversation_id'' (Str ''c1''))
             ''created_at'' ''desc'') ())
     = Inl (DatastoreError ''slow'') \<and>
   fst (DbService_getConversationsWithPreviews
          \<lparr>isTestMode = False, JSON_stringify = (\<lambda>v. Str ''{}''), JSON_parse = Inr,
          db_query = (\<lambda>sql params s. (Inr None, s)),
          knex_rows = (\<lambda>q s. (Inr [[(''id'', Str ''c1'')], [(''id'', Str ''c2'')]], s)),
          knex_first =
            (\<lambda>q s. (if q = OrderBy (Where (Table ''chat_messages'') ''conversation_id'' (Str ''c1''))
                                ''created_at'' ''desc''
                        then Inl (DatastoreError ''slow'')
                        else Inl (DatastoreError ''fast''), s)),
          knex_insert = (\<lambda>q d s. (Inr [], s)),
          knex_update = (\<lambda>q d s. (Inr 0, s)),
          knex_delete = (\<lambda>q s. (Inr 0, s))\<rparr>
          (\<lambda>i. if i = 0 then 2 else 1) ''u1''
          \<lparr>testAssessments = [], testPrototype = None, store = (), console = []\<rparr>)
     = Inl (DatastoreError ''fast'')"
  by (simp add: DbService_getConversationsWithPreviews_def conversation_preview_def
        Promise_all_def async_defs prop_of_def)

text \<open>
  C7, amended: for any database handle, when a datastore call of an operation fails with
  an error \<open>e\<close>, the operation rejects with \<open>e\<close> itself and has logged \<open>e\<close> under its
  own message, for \<open>findById\<close>, \<open>create\<close>, \<open>listByUser\<close>, \<open>update\<close> and \<open>delete\<close>
  of the Assessment model wherever they reach the datastore, for \<open>findById\<close>,
  \<open>findBy\<close>, \<open>create\<close>, \<open>update\<close>, \<open>delete\<close> and \<open>getAll\<close> of DbService, and for
  the query of the conversations in \<open>getConversationsWithPreviews\<close>. Where an operation
  reads the record back through \<open>findById\<close> and that call fails, \<open>e\<close> is logged by
  both. In the fan-out of \<open>getConversationsWithPreviews\<close> a lookup that fails with \<open>e\<close>
  makes the operation reject with \<open>e\<close> when no other rejection settles sooner; in every
  case the operation rejects with the rejection of one of its lookups, unchanged, and
  logs it.
\<close>

theorem datastore_errors_propagate:
  "(\<not> (isTestMode env \<and> truthy (testAssessments_get w id')) \<and>
    db_query env ''SELECT * FROM assessments WHERE id = ?'' [Str id'] (store w) = (Inl e, s') \<longrightarrow>
      Assessment_findById env id' w
        = (Inl e, w\<lparr>store := s',
                     console := console w @ [(''Error finding assessment by ID:'', e)]\<rparr>)) \<and>
   (\<not> isTestMode env \<and>
    db_query env
      ''INSERT INTO assessments (id, user_id, assessment_data, created_at, updated_at) VALUES (?, ?, ?, ?, ?)''
      [Str uuid, Str userId, JSON_stringify env assessmentData, Date now, Date now] (store w)
      = (Inl e, s') \<longrightarrow>
      Assessment_create env assessmentData userId uuid now w
        = (Inl e, w\<lparr>store := s',
                     console := console w @ [(''Error creating assessment:'', e)]\<rparr>)) \<and>
   (\<not> isTestMode env \<and>
    db_query env ''SELECT * FROM assessments WHERE user_id = ? ORDER BY created_at DESC''
      [Str userId] (store w) = (Inl e, s') \<longrightarrow>
      Assessment_listByUser env userId w
        = (Inl e, w\<lparr>store := s',
                     console := console w @ [(''Error listing assessments by user:'', e)]\<rparr>)) \<and>
   (\<not> isTestMode env \<and>
    db_query env ''UPDATE assessments SET assessment_data = ?, updated_at = ? WHERE id = ?''
      [JSON_stringify env assessmentData, Date now, Str id'] (store w) = (Inl e, s') \<longrightarrow>
      Assessment_update env id' assessmentData now w
        = (Inl e, w\<lparr>store := s',
                     console := console w @ [(''Error updating assessment:'', e)]\<rparr>)) \<and>
   (\<not> isTestMode env \<and>
    db_query env ''UPDATE assessments SET assessment_data = ?, updated_at = ? WHERE id = ?''
      [JSON_stringify env assessmentData, Date now, Str id'] (store w) = (Inr res, s1) \<and>
    db_query env ''SELECT * FROM assessments WHERE id = ?'' [Str id'] s1 = (Inl e, s') \<longrightarrow>
      Assessment_update env id' assessmentData now w
        = (Inl e, w\<lparr>store := s',
                     console := console w @ [(''Error finding assessment by ID:'', e),
                                             (''Error updating assessment:'', e)]\<rparr>)) \<and>
   (\<not> isTestMode env \<and>
    db_query env ''DELETE FROM assessments WHERE id = ?'' [Str id'] (store w) = (Inl e, s') \<longrightarrow>
      Assessment_delete env id' w
        = (Inl e, w\<lparr>store := s',
                     console := console w @ [(''Error deleting assessment:'', e)]\<rparr>)) \<and>
   (knex_first env (Where (Table table) ''id'' i) (store w) = (Inl e, s') \<longrightarrow>
      DbService_findById env table i w
        = (Inl e, w\<lparr>store := s',
                     console := console w @ [(''Error in findById for '' @ table @ '':'', e)]\<rparr>)) \<and>
   (knex_rows env (Where (Table table) field' value') (store w) = (Inl e, s') \<longrightarrow>
      DbService_findBy env table field' value' w
        = (Inl e, w\<lparr>store := s',
                     console := console w @ [(''Error in findBy for '' @ table @ '':'', e)]\<rparr>)) \<and>
   (knex_insert env (Table table) data (store w) = (Inl e, s') \<longrightarrow>
      DbService_create env table data w
        = (Inl e, w\<lparr>store := s',
                     console := console w @ [(''Error in create for '' @ table @ '':'', e)]\<rparr>)) \<and>
   (knex_insert env (Table table) data (store w) = (Inr ids, s1) \<and>
    knex_first env
      (Where (Table table) ''id''
         (if truthy (prop_of data ''id'') then prop_of data ''id''
          else (case ids of [] \<Rightarrow> Undefined | x # _ \<Rightarrow> x))) s1 = (Inl e, s') \<longrightarrow>
      DbService_create env table data w
        = (Inl e, w\<lparr>store := s',
                     console := console w @ [(''Error in findById for '' @ table @ '':'', e),
                                             (''Error in create for '' @ table @ '':'', e)]\<rparr>)) \<and>
   (knex_update env (Where (Table table) ''id'' i) data (store w) = (Inl e, s') \<longrightarrow>
      DbService_update env table i data w
        = (Inl e, w\<lparr>store := s',
                     console := console w @ [(''Error in update for '' @ table @ '':'', e)]\<rparr>)) \<and>
   (knex_update env (Where (Table table) ''id'' i) data (store w) = (Inr count, s1) \<and>
    knex_first env (Where (Table table) ''id'' i) s1 = (Inl e, s') \<longrightarrow>
      DbService_update env table i data w
        = (Inl e, w\<lparr>store := s',
                     console := console w @ [(''Error in findById for '' @ table @ '':'', e),
                                             (''Error in update for '' @ table @ '':'', e)]\<rparr>)) \<and>
   (knex_delete env (delete_query table option) (store w) = (Inl e, s') \<longrightarrow>
      DbService_delete env table option w
        = (Inl e, w\<lparr>store := s',
                     console := console w @ [(''Error deleting from '' @ table @ '':'', e)]\<rparr>)) \<and>
   (knex_rows env (Table table) (store w) = (Inl e, s') \<longrightarrow>
      DbService_getAll env table w
        = (Inl e, w\<lparr>store := s',
                     console := console w @ [(''Error in getAll for '' @ table @ '':'', e)]\<rparr>)) \<and>
   (knex_rows env
      (OrderBy (Where (Table ''conversations'') ''user_id'' (Str userId)) ''updated_at'' ''desc'')
      (store w) = (Inl e, s') \<longrightarrow>
      DbService_getConversationsWithPreviews env settled userId w
        = (Inl e, w\<lparr>store := s',
                     console := console w @ [(''Error in getConversationsWithPreviews:'', e)]\<rparr>)) \<and>
   (knex_rows env
      (OrderBy (Where (Table ''conversations'') ''user_id'' (Str userId)) ''updated_at'' ''desc'')
      (store w) = (Inr (before @ conv # after), s1) \<and>
    settle_all (map (conversation_preview env) before) (w\<lparr>store := s1\<rparr>) = (outcomes, w1) \<and>
    knex_first env
      (OrderBy (Where (Table ''chat_messages'') ''conversation_id'' (prop_of conv ''id''))
         ''created_at'' ''desc'') (store w1) = (Inl e, s') \<and>
    settle_all (map (conversation_preview env) after) (w1\<lparr>store := s'\<rparr>) = (outcomes', w2) \<and>
    (\<forall>k < length before. isl (outcomes ! k) \<longrightarrow> settled (length before) < settled k) \<and>
    (\<forall>k < length after. isl (outcomes' ! k) \<longrightarrow>
       settled (length before) \<le> settled (length before + 1 + k)) \<longrightarrow>
      DbService_getConversationsWithPreviews env settled userId w
        = (Inl e, w2\<lparr>console := console w2 @ [(''Error in getConversationsWithPreviews:'', e)]\<rparr>)) \<and>
   (knex_rows env
      (OrderBy (Where (Table ''conversations'') ''user_id'' (Str userId)) ''updated_at'' ''desc'')
      (store w) = (Inr conversations, s1) \<and>
    fst (DbService_getConversationsWithPreviews env settled userId w) = Inl e \<longrightarrow>
      Inl e \<in> set (fst (settle_all (map (conversation_preview env) conversations)
                          (w\<lparr>store := s1\<rparr>))) \<and>
      last (console (snd (DbService_getConversationsWithPreviews env settled userId w)))
        = (''Error in getConversationsWithPreviews:'', e))"
proof -
  have fanout:
    "DbService_getConversationsWithPreviews env settled userId w
       = (Inl e, w2\<lparr>console := console w2 @ [(''Error in getConversationsWithPreviews:'', e)]\<rparr>)"
    if rows: "knex_rows env
        (OrderBy (Where (Table ''conversations'') ''user_id'' (Str userId)) ''updated_at'' ''desc'')
        (store w) = (Inr (before @ conv # after), s1)"
      and pre: "settle_all (map (conversation_preview env) before) (w\<lparr>store := s1\<rparr>)
                  = (outcomes, w1)"
      and msg: "knex_first env
        (OrderBy (Where (Table ''chat_messages'') ''conversation_id'' (prop_of conv ''id''))
           ''created_at'' ''desc'') (store w1) = (Inl e, s')"
      and post: "settle_all (map (conversation_preview env) after) (w1\<lparr>store := s'\<rparr>)
                   = (outcomes', w2)"
      and sooner: "\<forall>k < length before. isl (outcomes ! k) \<longrightarrow> settled (length before) < settled k"
      and no_later: "\<forall>k < length after. isl (outcomes' ! k) \<longrightarrow>
                       settled (length before) \<le> settled (length before + 1 + k)"
    for before conv after s1 outcomes w1 outcomes' w2
  proof -
    have one: "conversation_preview env conv w1 = (Inl e, w1\<lparr>store := s'\<rparr>)"
      by (rule conversation_preview_fail [OF msg])
    have "Promise_all settled
            (map (conversation_preview env) before @ conversation_preview env conv
               # map (conversation_preview env) after) (w\<lparr>store := s1\<rparr>) = (Inl e, w2)"
    proof (rule Promise_all_first_rejection
                 [where p = "conversation_preview env conv" and settled = settled,
                  OF pre one post])
      show "\<forall>k < length (map (conversation_preview env) before).
              isl (outcomes ! k) \<longrightarrow>
              settled (length (map (conversation_preview env) before)) < settled k"
        using sooner by simp
      show "\<forall>k < length (map (conversation_preview env) after).
              isl (outcomes' ! k) \<longrightarrow>
              settled (length (map (conversation_preview env) before))
                \<le> settled (length (map (conversation_preview env) before) + 1 + k)"
        using no_later by simp
    qed
    then have "Promise_all settled (map (conversation_preview env) (before @ conv # after))
                 (w\<lparr>store := s1\<rparr>) = (Inl e, w2)"
      by simp
    then show ?thesis
      by (simp add: DbService_getConversationsWithPreviews_def async_defs rows)
  qed
  have origin:
    "Inl e \<in> set (fst (settle_all (map (conversation_preview env) conversations)
                        (w\<lparr>store := s1\<rparr>))) \<and>
     last (console (snd (DbService_getConversationsWithPreviews env settled userId w)))
       = (''Error in getConversationsWithPreviews:'', e)"
    if rows: "knex_rows env
        (OrderBy (Where (Table ''conversations'') ''user_id'' (Str userId)) ''updated_at'' ''desc'')
        (store w) = (Inr conversations, s1)"
      and rejected: "fst (DbService_getConversationsWithPreviews env settled userId w) = Inl e"
    for conversations s1
  proof -
    let ?body = "andThen
          (await_db (knex_rows env
             (OrderBy (Where (Table ''conversations'') ''user_id'' (Str userId))
                ''updated_at'' ''desc'')))
          (\<lambda>conversations.
             andThen (Promise_all settled (map (conversation_preview env) conversations))
               (\<lambda>conversationsWithPreviews. resolve conversationsWithPreviews))"
    from rejected have body: "fst (?body w) = Inl e"
      unfolding DbService_getConversationsWithPreviews_def
      by (cases "?body w") (auto simp: catch_log_def split: sum.splits)
    then have "fst (Promise_all settled (map (conversation_preview env) conversations)
                      (w\<lparr>store := s1\<rparr>)) = Inl e"
      by (cases "Promise_all settled (map (conversation_preview env) conversations)
                   (w\<lparr>store := s1\<rparr>)")
         (auto simp: andThen_def await_db_def resolve_def rows split: sum.splits)
    then have "Inl e \<in> set (fst (settle_all (map (conversation_preview env) conversations)
                        (w\<lparr>store := s1\<rparr>)))"
      by (rule Promise_all_rejection_is_an_outcome)
    moreover from catch_log_reject
                    [where body = ?body and msg = "''Error in getConversationsWithPreviews:''",
                     OF body]
    have "last (console (snd (DbService_getConversationsWithPreviews env settled userId w)))
       = (''Error in getConversationsWithPreviews:'', e)"
      unfolding DbService_getConversationsWithPreviews_def by simp
    ultimately show ?thesis
      by simp
  qed
  show ?thesis
    apply (intro conjI impI)
                     apply (simp add: Assessment_findById_def async_defs)
                    apply (simp add: Assessment_create_def async_defs)
                   apply (simp add: Assessment_listByUser_def async_defs)
                  apply (simp add: Assessment_update_def async_defs)
                 apply (simp add: Assessment_update_def Assessment_findById_def async_defs)
                apply (simp add: Assessment_delete_def async_defs)
               apply (simp add: DbService_findById_def async_defs)
              apply (simp add: DbService_findBy_def async_defs)
             apply (simp add: DbService_create_def async_defs)
            apply (simp add: DbService_create_def DbService_findById_def async_defs Let_def)
           apply (simp add: DbService_update_def async_defs)
          apply (simp add: DbService_update_def DbService_findById_def async_defs)
         apply (simp add: DbService_delete_def async_defs)
        apply (simp add: DbService_getAll_def async_defs)
       apply (simp add: DbService_getConversationsWithPreviews_def async_defs)
      apply (elim conjE, rule fanout, assumption+)
     apply (elim conjE, rule origin [THEN conjunct1], assumption+)
    apply (elim conjE, rule origin [THEN conjunct2], assumption+)
    done
qed

theorem datastore_errors_propagate_witness:
  "(let env = \<lparr>isTestMode = False, JSON_stringify = (\<lambda>v. Str ''{}''), JSON_parse = Inr,
           db_query = (\<lambda>sql params n. if n = 0 then (Inl (DatastoreError ''connection lost''), 0)
                                      else (Inr (Some []), n - 1)),
           knex_rows = (\<lambda>q n. if n = 0 then (Inl (DatastoreError ''connection lost''), 0)
                                else (Inr [[(''id'', Str ''c1'')]], n - 1)),
           knex_first = (\<lambda>q n. if n = 0 then (Inl (DatastoreError ''connection lost''), 0)
                                 else (Inr None, n - 1)),
           knex_insert = (\<lambda>q d n. if n = 0 then (Inl (DatastoreError ''connection lost''), 0)
                                    else (Inr [Num 1], n - 1)),
           knex_update = (\<lambda>q d n. if n = 0 then (Inl (DatastoreError ''connection lost''), 0)
                                    else (Inr 1, n - 1)),
           knex_delete = (\<lambda>q n. if n = 0 then (Inl (DatastoreError ''connection lost''), 0)
                                  else (Inr 1, n - 1))\<rparr>;
        e = DatastoreError ''connection lost'';
        w0 = \<lparr>testAssessments = [], testPrototype = None, store = 0 :: nat, console = []\<rparr>;
        w1 = \<lparr>testAssessments = [], testPrototype = None, store = 1 :: nat, console = []\<rparr>
    in fst (Assessment_findById env ''a1'' w0) = Inl e
     \<and> fst (Assessment_create env (Obj []) ''u1'' ''a1'' 7 w0) = Inl e
     \<and> fst (Assessment_listByUser env ''u1'' w0) = Inl e
     \<and> fst (Assessment_update env ''a1'' (Obj []) 7 w0) = Inl e
     \<and> Assessment_update env ''a1'' (Obj []) 7 w1
           = (Inl e, \<lparr>testAssessments = [], testPrototype = None, store = 0,
                       console = [(''Error finding assessment by ID:'', e),
                                  (''Error updating assessment:'', e)]\<rparr>)
     \<and> Assessment_delete env ''a1'' w0
           = (Inl e, \<lparr>testAssessments = [], testPrototype = None, store = 0,
                       console = [(''Error deleting assessment:'', e)]\<rparr>)
     \<and> fst (DbService_findById env ''users'' (Num 5) w0) = Inl e
     \<and> fst (DbService_findBy env ''users'' ''email'' (Str ''a@b'') w0) = Inl e
     \<and> fst (DbService_create env ''users'' [(''id'', Num 5)] w0) = Inl e
     \<and> fst (DbService_create env ''users'' [(''id'', Num 5)] w1) = Inl e
     \<and> fst (DbService_update env ''users'' (Num 5) [(''age'', Str ''30'')] w0) = Inl e
     \<and> fst (DbService_update env ''users'' (Num 5) [(''age'', Str ''30'')] w1) = Inl e
     \<and> DbService_delete env ''users'' (Num 5) w0
           = (Inl e, \<lparr>testAssessments = [], testPrototype = None, store = 0,
                       console = [(''Error deleting from users:'', e)]\<rparr>)
     \<and> fst (DbService_getAll env ''users'' w0) = Inl e
     \<and> fst (DbService_getConversationsWithPreviews env (\<lambda>i. 0) ''u1'' w0) = Inl e
     \<and> DbService_getConversationsWithPreviews env (\<lambda>i. 0) ''u1'' w1
           = (Inl e, \<lparr>testAssessments = [], testPrototype = None, store = 0,
                       console = [(''Error in getConversationsWithPreviews:'', e)]\<rparr>))"
  using datastore_errors_propagate
          [where env = "\<lparr>isTestMode = False, JSON_stringify = (\<lambda>v. Str ''{}''), JSON_parse = Inr,
           db_query = (\<lambda>sql params n. if n = 0 then (Inl (DatastoreError ''connection lost''), 0)
                                      else (Inr (Some []), n - 1)),
           knex_rows = (\<lambda>q n. if n = 0 then (Inl (DatastoreError ''connection lost''), 0)
                                else (Inr [[(''id'', Str ''c1'')]], n - 1)),
           knex_first = (\<lambda>q n. if n = 0 then (Inl (DatastoreError ''connection lost''), 0)
                                 else (Inr None, n - 1)),
           knex_insert = (\<lambda>q d n. if n = 0 then (Inl (DatastoreError ''connection lost''), 0)
                                    else (Inr [Num 1], n - 1)),
           knex_update = (\<lambda>q d n. if n = 0 then (Inl (DatastoreError ''connection lost''), 0)
                                    else (Inr 1, n - 1)),
           knex_delete = (\<lambda>q n. if n = 0 then (Inl (DatastoreError ''connection lost''), 0)
                                  else (Inr 1, n - 1))\<rparr>"
             and e = "DatastoreError ''connection lost''" and w = "\<lparr>testAssessments = [], testPrototype = None, store = 0 :: nat, console = []\<rparr>" and s' = 0 and settled = "\<lambda>i. 0"]
        datastore_errors_propagate
          [where env = "\<lparr>isTestMode = False, JSON_stringify = (\<lambda>v. Str ''{}''), JSON_parse = Inr,
           db_query = (\<lambda>sql params n. if n = 0 then (Inl (DatastoreError ''connection lost''), 0)
                                      else (Inr (Some []), n - 1)),
           knex_rows = (\<lambda>q n. if n = 0 then (Inl (DatastoreError ''connection lost''), 0)
                                else (Inr [[(''id'', Str ''c1'')]], n - 1)),
           knex_first = (\<lambda>q n. if n = 0 then (Inl (DatastoreError ''connection lost''), 0)
                                 else (Inr None, n - 1)),
           knex_insert = (\<lambda>q d n. if n = 0 then (Inl (DatastoreError ''connection lost''), 0)
                                    else (Inr [Num 1], n - 1)),
           knex_update = (\<lambda>q d n. if n = 0 then (Inl (DatastoreError ''connection lost''), 0)
                                    else (Inr 1, n - 1)),
           knex_delete = (\<lambda>q n. if n = 0 then (Inl (DatastoreError ''connection lost''), 0)
                                  else (Inr 1, n - 1))\<rparr>"
             and e = "DatastoreError ''connection lost''" and w = "\<lparr>testAssessments = [], testPrototype = None, store = 1 :: nat, console = []\<rparr>" and s' = 0 and ?s1.0 = 0 and settled = "\<lambda>i. 0"
             and before = "[]" and conv = "[(''id'', Str ''c1'')]" and after = "[]"]
  by (simp add: Let_def Assessment_findById_def Assessment_create_def Assessment_listByUser_def
        Assessment_update_def Assessment_delete_def DbService_findById_def DbService_findBy_def
        DbService_create_def DbService_update_def DbService_delete_def DbService_getAll_def
        DbService_getConversationsWithPreviews_def conversation_preview_def Promise_all_def
        async_defs)

end
